theory Spec2Isabelle
  imports Main "HOL-Library.Word"
begin

unbundle bit_operations_syntax

section \<open>Common types\<close>

type_synonym u8 = "8 word"
type_synonym u32 = "32 word"
type_synonym u64 = "64 word"

text \<open>
  Error codes of \<^verbatim>\<open>got_error.h\<close> that the modelled functions return.  An error made
  from \<^verbatim>\<open>errno\<close> (\<^verbatim>\<open>got_error_from_errno\<close>, \<^verbatim>\<open>got_error_set_errno\<close>) carries the
  name of the failed operation.
\<close>

datatype got_error =
    GOT_ERR_ERRNO string
  | GOT_ERR_BAD_PATH
  | GOT_ERR_NO_SPACE
  | GOT_ERR_NO_OBJ
  | GOT_ERR_NOT_IMPL
  | GOT_ERR_OBJ_NOT_PACKED
  | GOT_ERR_BAD_PACKIDX
  | GOT_ERR_PACKIDX_CSUM
  | GOT_ERR_BAD_PACKFILE
  | GOT_ERR_FILE_OPEN
  | GOT_ERR_IO
  | GOT_ERR_RANGE
  | GOT_ERR_ITER_COMPLETED
  | GOT_ERR_CANCELLED

section \<open>tog: fatal signals and the main loop guard\<close>

text \<open>
  The five \<^verbatim>\<open>volatile sig_atomic_t\<close> flags of tog.c.  A handler stores 1 in its flag.
\<close>

record tog_signals =
  tog_sigwinch_received :: int
  tog_sigpipe_received :: int
  tog_sigcont_received :: int
  tog_sigint_received :: int
  tog_sigterm_received :: int

definition no_signals :: tog_signals where
  "no_signals = \<lparr>tog_sigwinch_received = 0, tog_sigpipe_received = 0,
     tog_sigcont_received = 0, tog_sigint_received = 0, tog_sigterm_received = 0\<rparr>"

definition tog_sigwinch :: "tog_signals \<Rightarrow> tog_signals" where
  "tog_sigwinch s = s\<lparr>tog_sigwinch_received := 1\<rparr>"

definition tog_sigpipe :: "tog_signals \<Rightarrow> tog_signals" where
  "tog_sigpipe s = s\<lparr>tog_sigpipe_received := 1\<rparr>"

definition tog_sigcont :: "tog_signals \<Rightarrow> tog_signals" where
  "tog_sigcont s = s\<lparr>tog_sigcont_received := 1\<rparr>"

definition tog_sigint :: "tog_signals \<Rightarrow> tog_signals" where
  "tog_sigint s = s\<lparr>tog_sigint_received := 1\<rparr>"

definition tog_sigterm :: "tog_signals \<Rightarrow> tog_signals" where
  "tog_sigterm s = s\<lparr>tog_sigterm_received := 1\<rparr>"

text \<open>
  \<^verbatim>\<open>return (tog_sigpipe_received || tog_sigint_received || tog_sigint_received);\<close>
  The third operand of the source is the SIGINT flag a second time.  The operands of
  \<^verbatim>\<open>||\<close> are tested from left to right.
\<close>

definition tog_fatal_signal_received :: "tog_signals \<Rightarrow> int" where
  "tog_fatal_signal_received s =
     (if tog_sigpipe_received s \<noteq> 0 then 1
      else if tog_sigint_received s \<noteq> 0 then 1
      else if tog_sigint_received s \<noteq> 0 then 1
      else 0)"

datatype tog_view_type = TOG_VIEW_DIFF | TOG_VIEW_LOG | TOG_VIEW_BLAME | TOG_VIEW_TREE | TOG_VIEW_REF

text \<open>
  The guard of the main loop of \<^verbatim>\<open>view_loop\<close>:
  \<^verbatim>\<open>while (!TAILQ_EMPTY(&views) && !done && !tog_fatal_signal_received())\<close>.
  The list holds the parent views, \<open>done\<close> is the loop's local flag.
\<close>

definition view_loop_guard :: "'v list \<Rightarrow> int \<Rightarrow> tog_signals \<Rightarrow> bool" where
  "view_loop_guard views done sigs =
     (views \<noteq> [] \<and> done = 0 \<and> tog_fatal_signal_received sigs = 0)"

section \<open>tog: numeric key prefix\<close>

text \<open>
  Of \<^verbatim>\<open>struct tog_view\<close> only the two fields that the key reader writes are kept; the
  curses calls that echo the digits on the status line do not touch them.
\<close>

record tog_view =
  ch :: int
  count :: int

definition ERR :: int where
  "ERR = -1"

text \<open>
  The keyboard is a list of pending key codes; \<^verbatim>\<open>wgetch\<close> under \<^verbatim>\<open>halfdelay(5)\<close>
  returns the next one, or \<^verbatim>\<open>ERR\<close> when the half second passes with no key (the list is
  empty).
\<close>

definition wgetch :: "int list \<Rightarrow> int \<times> int list" where
  "wgetch keys = (case keys of [] \<Rightarrow> (ERR, []) | k # ks \<Rightarrow> (k, ks))"

text \<open>
  One pass through the body of the \<^verbatim>\<open>do ... while\<close> loop of \<^verbatim>\<open>get_compound_key\<close>:
  \<^verbatim>\<open>if (n >= 9999999) n = 9999999; else n = n * 10 + (c - '0');\<close>
  (the character \<^verbatim>\<open>'0'\<close> is 48).
\<close>

definition accumulate :: "int \<Rightarrow> int \<Rightarrow> int" where
  "accumulate n c = (if n \<ge> 9999999 then 9999999 else n * 10 + (c - 48))"

text \<open>
  The loop itself, entered with the digit \<open>c\<close> already read:
  \<^verbatim>\<open>do { ... } while (((c = wgetch(view->window))) >= '0' && c <= '9' && c != ERR);\<close>
  It returns the first key that is not a digit (or \<^verbatim>\<open>ERR\<close>), the total and the keys left.
\<close>

fun compound_key_loop :: "int \<Rightarrow> int \<Rightarrow> int list \<Rightarrow> int \<times> int \<times> int list" where
  "compound_key_loop n c [] = (ERR, accumulate n c, [])"
| "compound_key_loop n c (k # ks) =
     (if k \<ge> 48 \<and> k \<le> 57 \<and> k \<noteq> ERR
      then compound_key_loop (accumulate n c) k ks
      else (k, accumulate n c, ks))"

definition get_compound_key :: "tog_view \<Rightarrow> int \<Rightarrow> int list \<Rightarrow> int \<times> tog_view \<times> int list" where
  "get_compound_key view c keys =
     (case compound_key_loop 0 c keys of
        (c', n, keys') \<Rightarrow> (c', view\<lparr>count := n\<rparr>, keys'))"

text \<open>
  The key fetch of \<^verbatim>\<open>view_input\<close>:
  \<^verbatim>\<open>ch = view->ch;
  if ((view->count && --view->count == 0) || !view->count) {
      ch = wgetch(view->window);
      if (ch >= '1' && ch <= '9')
          view->ch = ch = get_compound_key(view, ch);
  }\<close>
\<close>

definition view_input_key :: "tog_view \<Rightarrow> int list \<Rightarrow> int \<times> tog_view \<times> int list" where
  "view_input_key view keys =
     (let view1 = (if count view \<noteq> 0 then view\<lparr>count := count view - 1\<rparr> else view)
      in if count view1 = 0
         then (case wgetch keys of
                 (c, keys') \<Rightarrow>
                   if c \<ge> 49 \<and> c \<le> 57
                   then (case get_compound_key view1 c keys' of
                           (c', view2, keys'') \<Rightarrow> (c', view2\<lparr>ch := c'\<rparr>, keys''))
                   else (c, view1, keys'))
         else (ch view, view1, keys))"

text \<open>The decimal value of a sequence of digit keys, most significant first.\<close>

definition decimal_value :: "int list \<Rightarrow> int" where
  "decimal_value ds = foldl (\<lambda>v d. v * 10 + (d - 48)) 0 ds"

section \<open>tog: the commit queue\<close>

text \<open>
  \<^verbatim>\<open>struct commit_queue_entry\<close> and \<^verbatim>\<open>struct commit_queue\<close>; the \<^verbatim>\<open>TAILQ\<close> is the list
  of its entries from head to tail.  Object ids and commit objects are opaque here.
\<close>

record ('i, 'c) commit_queue_entry =
  entry_id :: 'i
  commit :: 'c
  idx :: int

record ('i, 'c) commit_queue =
  ncommits :: int
  head :: "('i, 'c) commit_queue_entry list"

definition alloc_commit_queue_entry :: "'c \<Rightarrow> 'i \<Rightarrow> ('i, 'c) commit_queue_entry" where
  "alloc_commit_queue_entry c i = \<lparr>entry_id = i, commit = c, idx = 0\<rparr>"

text \<open>
  \<^verbatim>\<open>pop_commit\<close> removes \<^verbatim>\<open>TAILQ_FIRST\<close> and decrements \<^verbatim>\<open>ncommits\<close>.  On an empty
  queue the source dereferences a null pointer: \<open>None\<close>.
\<close>

definition pop_commit :: "('i, 'c) commit_queue \<Rightarrow> ('i, 'c) commit_queue option" where
  "pop_commit commits =
     (case head commits of
        [] \<Rightarrow> None
      | entry # rest \<Rightarrow> Some (commits\<lparr>head := rest, ncommits := ncommits commits - 1\<rparr>))"

text \<open>\<^verbatim>\<open>while (!TAILQ_EMPTY(&commits->head)) pop_commit(commits);\<close>\<close>

function free_commits :: "('i, 'c) commit_queue \<Rightarrow> ('i, 'c) commit_queue option" where
  "free_commits commits =
     (if head commits \<noteq> []
      then (case pop_commit commits of None \<Rightarrow> None | Some commits' \<Rightarrow> free_commits commits')
      else Some commits)"
  by pat_completeness auto
termination
  by (relation "measure (\<lambda>q. length (head q))")
     (auto simp: pop_commit_def split: list.splits)

text \<open>
  The part of \<^verbatim>\<open>struct tog_log_thread_args\<close> that \<^verbatim>\<open>queue_commits\<close> reads and writes.
  \<open>searching\<close> and \<open>search_next_done\<close> stand for the two \<^verbatim>\<open>int *\<close> into the view.
\<close>

record ('i, 'c) tog_log_thread_args =
  commits :: "('i, 'c) commit_queue"
  searching :: int
  search_next_done :: int

definition TOG_SEARCH_FORWARD :: int where
  "TOG_SEARCH_FORWARD = 1"

definition TOG_SEARCH_HAVE_MORE :: int where
  "TOG_SEARCH_HAVE_MORE = 1"

text \<open>
  What the collaborators of one loop iteration answer: the commit graph iterator (an error,
  a null id or an id), \<^verbatim>\<open>got_object_open_as_commit\<close>, the allocation of the entry, the two
  mutex calls (an error number, 0 for success) and \<^verbatim>\<open>match_commit\<close>.  The commit graph is the
  list of these answers; once it is used up the iterator reports \<^verbatim>\<open>GOT_ERR_ITER_COMPLETED\<close>.
\<close>

record ('i, 'c) iter_env =
  iter_next :: "got_error + 'i option"
  open_as_commit :: "got_error + 'c"
  alloc_ok :: bool
  lock_errcode :: int
  match_commit :: "got_error + bool"
  unlock_errcode :: int

text \<open>
  \<^verbatim>\<open>queue_commits\<close>: the \<^verbatim>\<open>do ... while\<close> loop appends one entry per iteration,
  \<^verbatim>\<open>entry->idx = a->commits->ncommits; TAILQ_INSERT_TAIL(...); a->commits->ncommits++;\<close>
  and goes on while a forward search has not found its match.
\<close>

fun queue_commits ::
  "('i, 'c) tog_log_thread_args \<Rightarrow> ('i, 'c) iter_env list \<Rightarrow>
   got_error option \<times> ('i, 'c) tog_log_thread_args \<times> ('i, 'c) iter_env list" where
  "queue_commits a [] = (Some GOT_ERR_ITER_COMPLETED, a, [])"
| "queue_commits a (g # graph) =
     (case iter_next g of
        Inl err \<Rightarrow> (Some err, a, graph)
      | Inr None \<Rightarrow> (None, a, graph)
      | Inr (Some i) \<Rightarrow>
          (case open_as_commit g of
             Inl err \<Rightarrow> (Some err, a, graph)
           | Inr c \<Rightarrow>
               if \<not> alloc_ok g then (Some (GOT_ERR_ERRNO ''alloc_commit_queue_entry''), a, graph)
               else if lock_errcode g \<noteq> 0 then (Some (GOT_ERR_ERRNO ''pthread_mutex_lock''), a, graph)
               else
                 let entry = (alloc_commit_queue_entry c i)\<lparr>idx := ncommits (commits a)\<rparr>;
                     a1 = a\<lparr>commits := (commits a)\<lparr>head := head (commits a) @ [entry],
                            ncommits := ncommits (commits a) + 1\<rparr>\<rparr>
                 in if searching a1 = TOG_SEARCH_FORWARD \<and> search_next_done a1 = 0
                    then (case match_commit g of
                            Inl err \<Rightarrow> (Some err, a1, graph)
                          | Inr have_match \<Rightarrow>
                              let a2 = (if have_match
                                        then a1\<lparr>search_next_done := TOG_SEARCH_HAVE_MORE\<rparr> else a1)
                              in if unlock_errcode g \<noteq> 0
                                 then (Some (GOT_ERR_ERRNO ''pthread_mutex_unlock''), a2, graph)
                                 else if searching a2 = TOG_SEARCH_FORWARD \<and> search_next_done a2 = 0
                                 then queue_commits a2 graph
                                 else (None, a2, graph))
                    else if unlock_errcode g \<noteq> 0
                    then (Some (GOT_ERR_ERRNO ''pthread_mutex_unlock''), a1, graph)
                    else (None, a1, graph)))"

text \<open>
  The operations the program performs on the queue of a log view: \<^verbatim>\<open>open_log_view\<close>
  initialises it (\<^verbatim>\<open>TAILQ_INIT\<close>, \<^verbatim>\<open>ncommits = 0\<close>), the loader thread calls
  \<^verbatim>\<open>queue_commits\<close>, the view clears it with \<^verbatim>\<open>free_commits\<close> (on reload and on close),
  and the search commands change the two search fields.
\<close>

definition open_log_view :: "('i, 'c) tog_log_thread_args" where
  "open_log_view = \<lparr>commits = \<lparr>ncommits = 0, head = []\<rparr>, searching = 0, search_next_done = 0\<rparr>"

datatype ('i, 'c) queue_op =
    Load "('i, 'c) iter_env list"
  | Clear
  | Search int int

fun queue_step ::
  "('i, 'c) tog_log_thread_args \<Rightarrow> ('i, 'c) queue_op \<Rightarrow> ('i, 'c) tog_log_thread_args option" where
  "queue_step a (Load graph) = Some (fst (snd (queue_commits a graph)))"
| "queue_step a Clear = map_option (\<lambda>q. a\<lparr>commits := q\<rparr>) (free_commits (commits a))"
| "queue_step a (Search s d) = Some (a\<lparr>searching := s, search_next_done := d\<rparr>)"

fun queue_run ::
  "('i, 'c) tog_log_thread_args \<Rightarrow> ('i, 'c) queue_op list \<Rightarrow> ('i, 'c) tog_log_thread_args option" where
  "queue_run a [] = Some a"
| "queue_run a (op # ops) =
     (case queue_step a op of None \<Rightarrow> None | Some a' \<Rightarrow> queue_run a' ops)"

text \<open>
  The invariant: read head to tail the entries carry the indices 0, 1, 2, ... and
  \<open>ncommits\<close> is their number.
\<close>

definition queue_indexed :: "('i, 'c) commit_queue \<Rightarrow> bool" where
  "queue_indexed q =
     (map idx (head q) = map int [0 ..< length (head q)] \<and> ncommits q = int (length (head q)))"

section \<open>tog: the blame callback\<close>

record 'i tog_blame_line =
  annotated :: int
  line_id :: "'i option"

text \<open>
  \<^verbatim>\<open>struct tog_blame_cb_args\<close>: the line slots, their number and \<open>quit\<close>, the \<^verbatim>\<open>int\<close> that
  \<^verbatim>\<open>a->quit\<close> points to (\<^verbatim>\<open>s->done\<close> of the blame view).
\<close>

record 'i tog_blame_cb_args =
  lines :: "'i tog_blame_line list"
  nlines :: int
  quit :: int

text \<open>The answers of the mutex calls and of \<^verbatim>\<open>got_object_id_dup\<close> during one callback.\<close>

record cb_env =
  cb_lock_errcode :: int
  cb_dup_ok :: bool
  cb_unlock_errcode :: int

text \<open>The label \<^verbatim>\<open>done:\<close> of \<^verbatim>\<open>blame_cb\<close>: unlock, whose failure replaces the error.\<close>

definition blame_cb_done :: "cb_env \<Rightarrow> got_error option \<Rightarrow> got_error option" where
  "blame_cb_done env err =
     (if cb_unlock_errcode env \<noteq> 0 then Some (GOT_ERR_ERRNO ''pthread_mutex_unlock'') else err)"

text \<open>
  \<^verbatim>\<open>blame_cb\<close>.  The result is \<open>None\<close> where the source would index \<^verbatim>\<open>a->lines\<close>
  outside the array (when the array is shorter than \<^verbatim>\<open>a->nlines\<close> says).
\<close>

definition blame_cb ::
  "cb_env \<Rightarrow> 'i tog_blame_cb_args \<Rightarrow> int \<Rightarrow> int \<Rightarrow> 'i \<Rightarrow>
   (got_error option \<times> 'i tog_blame_cb_args) option" where
  "blame_cb env a nlines' lineno i =
     (if nlines' \<noteq> nlines a \<or> (lineno \<noteq> -1 \<and> lineno < 1) \<or> lineno > nlines a
      then Some (Some GOT_ERR_RANGE, a)
      else if cb_lock_errcode env \<noteq> 0 then Some (Some (GOT_ERR_ERRNO ''pthread_mutex_lock''), a)
      else if quit a \<noteq> 0 then Some (blame_cb_done env (Some GOT_ERR_ITER_COMPLETED), a)
      else if lineno = -1 then Some (blame_cb_done env None, a)
      else if \<not> nat (lineno - 1) < length (lines a) then None
      else
        let line = lines a ! nat (lineno - 1)
        in if annotated line \<noteq> 0 then Some (blame_cb_done env None, a)
           else if \<not> cb_dup_ok env
           then Some (blame_cb_done env (Some (GOT_ERR_ERRNO ''got_object_id_dup'')),
                      a\<lparr>lines := (lines a)[nat (lineno - 1) := line\<lparr>line_id := None\<rparr>]\<rparr>)
           else Some (blame_cb_done env None,
                      a\<lparr>lines := (lines a)[nat (lineno - 1) :=
                                     line\<lparr>line_id := Some i, annotated := 1\<rparr>]\<rparr>))"

text \<open>
  A run of the annotation thread as the blame view sees it: a list of callback invocations,
  each with its arguments and the answers of its collaborators.  The errors are collected;
  the arguments after the last invocation are returned.
\<close>

fun blame_cb_run ::
  "'i tog_blame_cb_args \<Rightarrow> (cb_env \<times> int \<times> int \<times> 'i) list \<Rightarrow>
   (got_error option list \<times> 'i tog_blame_cb_args) option" where
  "blame_cb_run a [] = Some ([], a)"
| "blame_cb_run a ((env, nl, ln, i) # calls) =
     (case blame_cb env a nl ln i of
        None \<Rightarrow> None
      | Some (err, a') \<Rightarrow>
          (case blame_cb_run a' calls of
             None \<Rightarrow> None
           | Some (errs, a'') \<Rightarrow> Some (err # errs, a'')))"

text \<open>
  \<^verbatim>\<open>blame_thread\<close> after \<^verbatim>\<open>got_blame\<close> has returned \<open>err\<close> (the blamer hands back the error of
  its callback): \<^verbatim>\<open>GOT_ERR_CANCELLED\<close> is dropped, the repository is closed under the mutex.
\<close>

record thread_env =
  th_lock_errcode :: int
  th_repo_close :: "got_error option"
  th_unlock_errcode :: int
  th_close_ok :: bool

definition blame_thread_result :: "thread_env \<Rightarrow> got_error option \<Rightarrow> got_error option" where
  "blame_thread_result env blame_err =
     (let err = (if blame_err = Some GOT_ERR_CANCELLED then None else blame_err)
      in if th_lock_errcode env \<noteq> 0 then Some (GOT_ERR_ERRNO ''pthread_mutex_lock'')
         else
           let err1 = (if err = None then th_repo_close env else err);
               err2 = (if th_unlock_errcode env \<noteq> 0 \<and> err1 = None
                       then Some (GOT_ERR_ERRNO ''pthread_mutex_unlock'') else err1)
           in if \<not> th_close_ok env \<and> err2 = None then Some (GOT_ERR_ERRNO ''close'') else err2)"

text \<open>
  \<^verbatim>\<open>stop_blame\<close>, as far as its result goes.  \<open>thread\<close> is the value the worker returns when
  it is joined, if there is a worker; the other fields are the results of closing what the
  view still holds.  The line slots are freed.
\<close>

record 'i tog_blame =
  thread :: "got_error option option"
  thread_repo :: "got_error option option"
  blame_f :: "bool option"
  blame_lines :: "'i tog_blame_line list option"
  pack_fds :: "got_error option option"

record join_env =
  j_unlock_errcode :: int
  j_join_errcode :: int
  j_lock_errcode :: int

definition stop_blame :: "join_env \<Rightarrow> 'i tog_blame \<Rightarrow> got_error option \<times> 'i tog_blame" where
  "stop_blame env blame =
     (case thread blame of
        Some r \<Rightarrow>
          if j_unlock_errcode env \<noteq> 0 then (Some (GOT_ERR_ERRNO ''pthread_mutex_unlock''), blame)
          else if j_join_errcode env \<noteq> 0 then (Some (GOT_ERR_ERRNO ''pthread_join''), blame)
          else if j_lock_errcode env \<noteq> 0 then (Some (GOT_ERR_ERRNO ''pthread_mutex_lock''), blame)
          else
            let err = (if r = Some GOT_ERR_ITER_COMPLETED then None else r);
                err1 = (case thread_repo blame of
                          Some close_err \<Rightarrow> if err = None then close_err else err
                        | None \<Rightarrow> err);
                err2 = (case blame_f blame of
                          Some ok \<Rightarrow> if \<not> ok \<and> err1 = None then Some (GOT_ERR_ERRNO ''fclose'') else err1
                        | None \<Rightarrow> err1);
                err3 = (case pack_fds blame of
                          Some pack_err \<Rightarrow> if err2 = None then pack_err else err2
                        | None \<Rightarrow> err2)
            in (err3, \<lparr>thread = None, thread_repo = None, blame_f = None,
                       blame_lines = None, pack_fds = None\<rparr>)
      | None \<Rightarrow>
          let err1 = (case thread_repo blame of Some close_err \<Rightarrow> close_err | None \<Rightarrow> None);
              err2 = (case blame_f blame of
                        Some ok \<Rightarrow> if \<not> ok \<and> err1 = None then Some (GOT_ERR_ERRNO ''fclose'') else err1
                      | None \<Rightarrow> err1);
              err3 = (case pack_fds blame of
                        Some pack_err \<Rightarrow> if err2 = None then pack_err else err2
                      | None \<Rightarrow> err2)
          in (err3, \<lparr>thread = None, thread_repo = None, blame_f = None,
                     blame_lines = None, pack_fds = None\<rparr>))"

text \<open>
  An invocation is in order when its arguments pass the range check of \<^verbatim>\<open>blame_cb\<close> and
  both mutex calls succeed.
\<close>

definition call_in_order :: "'i tog_blame_cb_args \<Rightarrow> cb_env \<times> int \<times> int \<times> 'i \<Rightarrow> bool" where
  "call_in_order a call =
     (case call of (env, nl, ln, i) \<Rightarrow>
        nl = nlines a \<and> (ln = -1 \<or> 1 \<le> ln) \<and> ln \<le> nlines a \<and>
        cb_lock_errcode env = 0 \<and> cb_unlock_errcode env = 0)"

text \<open>Joining succeeds and nothing that \<^verbatim>\<open>stop_blame\<close> closes reports an error.\<close>

definition join_in_order :: "join_env \<Rightarrow> 'i tog_blame \<Rightarrow> bool" where
  "join_in_order env blame =
     (j_unlock_errcode env = 0 \<and> j_join_errcode env = 0 \<and> j_lock_errcode env = 0 \<and>
      (thread_repo blame = None \<or> thread_repo blame = Some None) \<and>
      blame_f blame \<noteq> Some False \<and>
      (pack_fds blame = None \<or> pack_fds blame = Some None))"

section \<open>Pack files: streams\<close>

text \<open>
  A \<^verbatim>\<open>FILE *\<close>: the bytes of the file and the position of the next read or write.  A read
  fails when the file ends before the item is complete; device errors are not modelled, so
  \<^verbatim>\<open>got_ferror(f, code)\<close> is \<open>code\<close>.
\<close>

record FILE =
  bytes :: "u8 list"
  pos :: nat

text \<open>\<^verbatim>\<open>fread(&b, 1, 1, f)\<close>\<close>

definition fread_byte :: "FILE \<Rightarrow> (u8 \<times> FILE) option" where
  "fread_byte f =
     (if pos f < length (bytes f) then Some (bytes f ! pos f, f\<lparr>pos := pos f + 1\<rparr>) else None)"

text \<open>\<^verbatim>\<open>fread(buf, len, 1, f)\<close>: one item of \<open>len\<close> bytes, all or nothing.\<close>

definition fread :: "FILE \<Rightarrow> nat \<Rightarrow> (u8 list \<times> FILE) option" where
  "fread f len =
     (if pos f + len \<le> length (bytes f)
      then Some (take len (drop (pos f) (bytes f)), f\<lparr>pos := pos f + len\<rparr>)
      else None)"

text \<open>The bytes of \<open>n\<close> items of \<open>len\<close> bytes each, cut into the items.\<close>

fun items :: "nat \<Rightarrow> nat \<Rightarrow> u8 list \<Rightarrow> u8 list list" where
  "items len 0 bs = []"
| "items len (Suc n) bs = take len bs # items len n (drop len bs)"

text \<open>
  \<^verbatim>\<open>fread(array, len, n, f)\<close> with the caller's test \<^verbatim>\<open>n != nobj\<close>: all \<open>n\<close> items or
  failure.
\<close>

definition fread_items :: "FILE \<Rightarrow> nat \<Rightarrow> nat \<Rightarrow> (u8 list list \<times> FILE) option" where
  "fread_items f len n =
     (case fread f (len * n) of
        None \<Rightarrow> None
      | Some (bs, f') \<Rightarrow> Some (items len n bs, f'))"

text \<open>
  \<^verbatim>\<open>fseeko(f, offset, SEEK_SET)\<close>; \<^verbatim>\<open>off_t\<close> is a signed 64-bit integer, and a negative
  offset is refused.  Seeking past the end is allowed (the next read fails).
\<close>

definition fseeko :: "FILE \<Rightarrow> u64 \<Rightarrow> FILE option" where
  "fseeko f offset = (if sint offset < 0 then None else Some (f\<lparr>pos := nat (sint offset)\<rparr>))"

text \<open>
  \<^verbatim>\<open>fwrite(data, len, 1, f)\<close> on a file system that accepts files of up to \<open>room\<close> bytes.
\<close>

definition fwrite :: "nat \<Rightarrow> FILE \<Rightarrow> u8 list \<Rightarrow> FILE option" where
  "fwrite room f data =
     (if pos f + length data \<le> room
      then Some \<lparr>bytes = take (pos f) (bytes f) @ data @ drop (pos f + length data) (bytes f),
                 pos = pos f + length data\<rparr>
      else None)"

definition rewind :: "FILE \<Rightarrow> FILE" where
  "rewind f = f\<lparr>pos := 0\<rparr>"

text \<open>Values stored big-endian, kept as the bytes of the file; \<^verbatim>\<open>betoh32\<close>, \<^verbatim>\<open>betoh64\<close>.\<close>

definition betoh32 :: "u8 list \<Rightarrow> u32" where
  "betoh32 bs = foldl (\<lambda>v b. push_bit 8 v OR ucast b) 0 bs"

definition betoh64 :: "u8 list \<Rightarrow> u64" where
  "betoh64 bs = foldl (\<lambda>v b. push_bit 8 v OR ucast b) 0 bs"

section \<open>Pack files: constants of the format\<close>

text \<open>
  Modelled from the spec: the object kinds of \<^verbatim>\<open>got_object.h\<close>, which is not among the
  sources: 1 = commit, 2 = tree, 3 = blob, 4 = tag, 6 = offset-delta, 7 = ref-delta.
\<close>

definition GOT_OBJ_TYPE_COMMIT :: u8 where "GOT_OBJ_TYPE_COMMIT = 1"
definition GOT_OBJ_TYPE_TREE :: u8 where "GOT_OBJ_TYPE_TREE = 2"
definition GOT_OBJ_TYPE_BLOB :: u8 where "GOT_OBJ_TYPE_BLOB = 3"
definition GOT_OBJ_TYPE_TAG :: u8 where "GOT_OBJ_TYPE_TAG = 4"
definition GOT_OBJ_TYPE_OFFSET_DELTA :: u8 where "GOT_OBJ_TYPE_OFFSET_DELTA = 6"
definition GOT_OBJ_TYPE_REF_DELTA :: u8 where "GOT_OBJ_TYPE_REF_DELTA = 7"

text \<open>
  Modelled from the spec: the masks of \<^verbatim>\<open>pack.h\<close>, which is not among the sources.  In
  the first header byte the kind is bits 4 to 6 and the size bits 0 to 3; in later bytes the
  size is bits 0 to 6; bit 7 says that more bytes follow.  The bytes of a negative offset
  are laid out like the later size bytes.
\<close>

definition GOT_PACK_OBJ_SIZE_MORE :: u8 where "GOT_PACK_OBJ_SIZE_MORE = 0x80"
definition GOT_PACK_OBJ_SIZE0_TYPE_MASK :: u8 where "GOT_PACK_OBJ_SIZE0_TYPE_MASK = 0x70"
definition GOT_PACK_OBJ_SIZE0_TYPE_MASK_SHIFT :: nat where "GOT_PACK_OBJ_SIZE0_TYPE_MASK_SHIFT = 4"
definition GOT_PACK_OBJ_SIZE0_VAL_MASK :: u8 where "GOT_PACK_OBJ_SIZE0_VAL_MASK = 0x0f"
definition GOT_PACK_OBJ_SIZE_VAL_MASK :: u8 where "GOT_PACK_OBJ_SIZE_VAL_MASK = 0x7f"
definition GOT_PACK_OBJ_DELTA_OFF_MORE :: u8 where "GOT_PACK_OBJ_DELTA_OFF_MORE = 0x80"
definition GOT_PACK_OBJ_DELTA_OFF_VAL_MASK :: u8 where "GOT_PACK_OBJ_DELTA_OFF_VAL_MASK = 0x7f"

text \<open>
  Modelled from the spec: the constants of the index format in \<^verbatim>\<open>pack.h\<close>: the magic
  number and version of the index, the signature and version of the pack file, the high bit
  of an offset that makes it an index into the large offsets, and the mask of the low 31
  bits.
\<close>

definition GOT_PACKIDX_V2_MAGIC :: u32 where "GOT_PACKIDX_V2_MAGIC = 0xff744f63"
definition GOT_PACKIDX_VERSION :: u32 where "GOT_PACKIDX_VERSION = 2"
definition GOT_PACKFILE_SIGNATURE :: u32 where "GOT_PACKFILE_SIGNATURE = 0x5041434b"
definition GOT_PACKFILE_VERSION :: u32 where "GOT_PACKFILE_VERSION = 2"
definition GOT_PACKIDX_OFFSET_VAL_IS_LARGE_IDX :: u32 where
  "GOT_PACKIDX_OFFSET_VAL_IS_LARGE_IDX = 0x80000000"
definition GOT_PACKIDX_OFFSET_VAL_MASK :: u32 where "GOT_PACKIDX_OFFSET_VAL_MASK = 0x7fffffff"
definition SHA1_DIGEST_LENGTH :: nat where "SHA1_DIGEST_LENGTH = 20"

section \<open>Pack files: object headers and negative offsets\<close>

text \<open>
  The loop of \<^verbatim>\<open>parse_object_type_and_size\<close>, entered with the number \<open>i\<close> of bytes read
  so far:
  \<^verbatim>\<open>do {
      if (i > 9) return got_error(GOT_ERR_NO_SPACE);
      n = fread(&sizeN, sizeof(sizeN), 1, packfile);
      if (n != 1) return got_ferror(packfile, GOT_ERR_BAD_PACKIDX);
      if (i == 0) { t = (sizeN & TYPE_MASK) >> 4; s = (sizeN & SIZE0_VAL_MASK); }
      else { size_t shift = 4 + 7 * (i - 1); s |= ((sizeN & SIZE_VAL_MASK) << shift); }
      i++;
  } while (sizeN & GOT_PACK_OBJ_SIZE_MORE);\<close>
  The size is a \<^verbatim>\<open>uint64_t\<close>; the shift is taken at that width, as the format has it.
  The result is the type, the size, the length of the header and the stream behind it.
\<close>

function type_and_size_loop ::
  "FILE \<Rightarrow> nat \<Rightarrow> u8 \<Rightarrow> u64 \<Rightarrow> got_error + (u8 \<times> u64 \<times> nat \<times> FILE)" where
  "type_and_size_loop packfile i t s =
     (if i > 9 then Inl GOT_ERR_NO_SPACE
      else case fread_byte packfile of
        None \<Rightarrow> Inl GOT_ERR_BAD_PACKIDX
      | Some (sizeN, packfile') \<Rightarrow>
          let t' = (if i = 0
                    then drop_bit GOT_PACK_OBJ_SIZE0_TYPE_MASK_SHIFT
                           (sizeN AND GOT_PACK_OBJ_SIZE0_TYPE_MASK)
                    else t);
              s' = (if i = 0 then ucast (sizeN AND GOT_PACK_OBJ_SIZE0_VAL_MASK)
                    else s OR push_bit (4 + 7 * (i - 1))
                                (ucast (sizeN AND GOT_PACK_OBJ_SIZE_VAL_MASK)))
          in if sizeN AND GOT_PACK_OBJ_SIZE_MORE \<noteq> 0
             then type_and_size_loop packfile' (i + 1) t' s'
             else Inr (t', s', i + 1, packfile'))"
  by pat_completeness auto
termination
  by (relation "measure (\<lambda>(packfile, i, t, s). 10 - i)") auto

declare type_and_size_loop.simps [simp del]

definition parse_object_type_and_size :: "FILE \<Rightarrow> got_error + (u8 \<times> u64 \<times> nat \<times> FILE)" where
  "parse_object_type_and_size packfile = type_and_size_loop packfile 0 0 0"

text \<open>
  The loop of \<^verbatim>\<open>parse_negative_offset\<close>:
  \<^verbatim>\<open>do {
      if (i > 8) return got_error(GOT_ERR_NO_SPACE);
      n = fread(&offN, sizeof(offN), 1, packfile);
      if (n != 1) return got_ferror(packfile, GOT_ERR_BAD_PACKIDX);
      if (i == 0) o = (offN & GOT_PACK_OBJ_DELTA_OFF_VAL_MASK);
      else { o++; o <<= 7; o += (offN & GOT_PACK_OBJ_DELTA_OFF_VAL_MASK); }
      i++;
  } while (offN & GOT_PACK_OBJ_DELTA_OFF_MORE);\<close>
  The offset \<^verbatim>\<open>o\<close> of the source (here \<open>ofs\<close>) is an \<^verbatim>\<open>int64_t\<close>: a 64-bit word read as
  signed, whose arithmetic wraps around.
\<close>

function negative_offset_loop ::
  "FILE \<Rightarrow> nat \<Rightarrow> u64 \<Rightarrow> got_error + (u64 \<times> nat \<times> FILE)" where
  "negative_offset_loop packfile i ofs =
     (if i > 8 then Inl GOT_ERR_NO_SPACE
      else case fread_byte packfile of
        None \<Rightarrow> Inl GOT_ERR_BAD_PACKIDX
      | Some (offN, packfile') \<Rightarrow>
          let ofs' = (if i = 0 then ucast (offN AND GOT_PACK_OBJ_DELTA_OFF_VAL_MASK)
                      else push_bit 7 (ofs + 1) + ucast (offN AND GOT_PACK_OBJ_DELTA_OFF_VAL_MASK))
          in if offN AND GOT_PACK_OBJ_DELTA_OFF_MORE \<noteq> 0
             then negative_offset_loop packfile' (i + 1) ofs'
             else Inr (ofs', i + 1, packfile'))"
  by pat_completeness auto
termination
  by (relation "measure (\<lambda>(packfile, i, ofs). 9 - i)") auto

declare negative_offset_loop.simps [simp del]

definition parse_negative_offset :: "FILE \<Rightarrow> got_error + (u64 \<times> nat \<times> FILE)" where
  "parse_negative_offset packfile = negative_offset_loop packfile 0 0"

text \<open>
  \<^verbatim>\<open>parse_offset_delta\<close>:
  \<^verbatim>\<open>*base_offset = (offset - negoffset);
  if (*base_offset <= 0) return got_error(GOT_ERR_BAD_PACKFILE);\<close>
\<close>

definition parse_offset_delta :: "FILE \<Rightarrow> u64 \<Rightarrow> got_error + (u64 \<times> FILE)" where
  "parse_offset_delta packfile offset =
     (case parse_negative_offset packfile of
        Inl err \<Rightarrow> Inl err
      | Inr (negoffset, negofflen, packfile') \<Rightarrow>
          let base_offset = offset - negoffset
          in if sint base_offset \<le> 0 then Inl GOT_ERR_BAD_PACKFILE
             else Inr (base_offset, packfile'))"

section \<open>Pack index\<close>

text \<open>
  The file system as the pack reader uses it: \<open>files\<close> gives the content of a regular file
  (\<^verbatim>\<open>fopen\<close> for reading, \<^verbatim>\<open>stat\<close> for its size), \<open>dirs\<close> the names in a directory
  (\<^verbatim>\<open>opendir\<close>, \<^verbatim>\<open>readdir\<close>).  SHA-1 is a parameter \<open>sha1\<close> of the functions that hash.
\<close>

record filesystem =
  files :: "string \<Rightarrow> u8 list option"
  dirs :: "string \<Rightarrow> string list option"

definition fopen :: "filesystem \<Rightarrow> string \<Rightarrow> FILE option" where
  "fopen fs path = map_option (\<lambda>bs. \<lparr>bytes = bs, pos = 0\<rparr>) (files fs path)"

text \<open>\<^verbatim>\<open>PATH_MAX\<close> of the system's limits.h.\<close>

definition PATH_MAX :: nat where
  "PATH_MAX = 1024"

text \<open>
  \<^verbatim>\<open>struct got_packidx_v2_hdr\<close>.  The numbers stay in file order (big-endian), four or eight
  bytes each; an object id is its 20 bytes.  \<open>large_offsets\<close> is \<open>None\<close> for the null
  pointer.
\<close>

record got_packidx_trailer =
  packfile_sha1 :: "u8 list"
  packidx_sha1 :: "u8 list"

record got_packidx_v2_hdr =
  magic :: "u8 list"
  version :: "u8 list"
  fanout_table :: "u8 list list"
  sorted_ids :: "u8 list list"
  crc32 :: "u8 list list"
  offsets :: "u8 list list"
  large_offsets :: "u8 list list option"
  trailer :: got_packidx_trailer

text \<open>
  \<^verbatim>\<open>for (i = 0; i < 0xff - 1; i++)
      if (be32toh(fanout_table[i]) > be32toh(fanout_table[i + 1]))
          return got_error(GOT_ERR_BAD_PACKIDX);\<close>
  The table has 256 entries.
\<close>

function verify_fanout_loop :: "u8 list list \<Rightarrow> nat \<Rightarrow> got_error option" where
  "verify_fanout_loop fanout i =
     (if i < 0xff - 1
      then (if betoh32 (fanout ! i) > betoh32 (fanout ! (i + 1))
            then Some GOT_ERR_BAD_PACKIDX
            else verify_fanout_loop fanout (i + 1))
      else None)"
  by pat_completeness auto
termination
  by (relation "measure (\<lambda>(fanout, i). 0xff - 1 - i)") auto

declare verify_fanout_loop.simps [simp del]

definition verify_fanout_table :: "u8 list list \<Rightarrow> got_error option" where
  "verify_fanout_table fanout = verify_fanout_loop fanout 0"

text \<open>
  \<^verbatim>\<open>get_packfile_size\<close>: the path of the index with what follows its last dot replaced by
  \<^verbatim>\<open>pack\<close>, and the size of that file.  \<^verbatim>\<open>strlcpy\<close> returns the length of the source and
  copies at most \<^verbatim>\<open>PATH_MAX - 1\<close> characters.
\<close>

definition get_packfile_size :: "filesystem \<Rightarrow> string \<Rightarrow> got_error + nat" where
  "get_packfile_size fs path_idx =
     (if length path_idx > PATH_MAX then Inl GOT_ERR_NO_SPACE
      else
        let base_path = take (PATH_MAX - 1) path_idx
        in if CHR ''.'' \<notin> set base_path then Inl GOT_ERR_BAD_PATH
           else
             let path_pack = rev (tl (dropWhile (\<lambda>c. c \<noteq> CHR ''.'') (rev base_path))) @ ''.pack''
             in case files fs path_pack of
                  None \<Rightarrow> Inl (GOT_ERR_ERRNO ''stat'')
                | Some bs \<Rightarrow> Inr (length bs))"

text \<open>
  The end of \<^verbatim>\<open>got_packidx_open\<close>, from the label \<^verbatim>\<open>checksum:\<close>: the trailer is read, and
  the SHA-1 of everything read before it and of its first half must be its second half.
  \<open>ctx\<close> is what has been fed to the hash so far.
\<close>

definition packidx_checksum ::
  "(u8 list \<Rightarrow> u8 list) \<Rightarrow> FILE \<Rightarrow> u8 list \<Rightarrow> got_packidx_v2_hdr \<Rightarrow>
   got_error + got_packidx_v2_hdr" where
  "packidx_checksum sha1 f ctx p =
     (case fread f (2 * SHA1_DIGEST_LENGTH) of
        None \<Rightarrow> Inl GOT_ERR_BAD_PACKIDX
      | Some (tr, f') \<Rightarrow>
          let p' = p\<lparr>trailer := \<lparr>packfile_sha1 = take SHA1_DIGEST_LENGTH tr,
                                  packidx_sha1 = drop SHA1_DIGEST_LENGTH tr\<rparr>\<rparr>
          in if packidx_sha1 (trailer p') \<noteq> sha1 (ctx @ packfile_sha1 (trailer p'))
             then Inl GOT_ERR_PACKIDX_CSUM
             else Inr p')"

text \<open>
  The middle of \<^verbatim>\<open>got_packidx_open\<close>: the three tables of \<open>nobj\<close> entries, and the large
  offsets when the pack file is larger than \<^verbatim>\<open>0x80000000\<close> bytes.
\<close>

definition packidx_tables ::
  "(u8 list \<Rightarrow> u8 list) \<Rightarrow> FILE \<Rightarrow> u8 list \<Rightarrow> nat \<Rightarrow> got_packidx_v2_hdr \<Rightarrow>
   got_error + got_packidx_v2_hdr" where
  "packidx_tables sha1 f ctx packfile_size p =
     (let nobj = unat (betoh32 (fanout_table p ! 0xff))
      in case fread_items f SHA1_DIGEST_LENGTH nobj of
           None \<Rightarrow> Inl GOT_ERR_BAD_PACKIDX
         | Some (ids, f1) \<Rightarrow>
       (case fread_items f1 4 nobj of
           None \<Rightarrow> Inl GOT_ERR_BAD_PACKIDX
         | Some (crcs, f2) \<Rightarrow>
       (case fread_items f2 4 nobj of
           None \<Rightarrow> Inl GOT_ERR_BAD_PACKIDX
         | Some (offs, f3) \<Rightarrow>
           let p3 = p\<lparr>sorted_ids := ids, crc32 := crcs, offsets := offs\<rparr>;
               ctx3 = ctx @ concat ids @ concat crcs @ concat offs
           in if packfile_size \<le> 0x80000000 then packidx_checksum sha1 f3 ctx3 p3
              else (case fread_items f3 8 nobj of
                      None \<Rightarrow> Inl GOT_ERR_BAD_PACKIDX
                    | Some (larges, f4) \<Rightarrow>
                        packidx_checksum sha1 f4 (ctx3 @ concat larges)
                          (p3\<lparr>large_offsets := Some larges\<rparr>)))))"

text \<open>
  \<^verbatim>\<open>got_packidx_open\<close>: magic number, version and fan-out table, the table verified; then
  the rest as above.  Allocation is taken to succeed.
\<close>

definition got_packidx_open ::
  "(u8 list \<Rightarrow> u8 list) \<Rightarrow> filesystem \<Rightarrow> string \<Rightarrow> got_error + got_packidx_v2_hdr" where
  "got_packidx_open sha1 fs path =
     (case fopen fs path of
        None \<Rightarrow> Inl GOT_ERR_BAD_PATH
      | Some f \<Rightarrow>
     (case get_packfile_size fs path of
        Inl err \<Rightarrow> Inl err
      | Inr packfile_size \<Rightarrow>
     (case fread f 4 of
        None \<Rightarrow> Inl GOT_ERR_BAD_PACKIDX
      | Some (m, f1) \<Rightarrow>
          if betoh32 m \<noteq> GOT_PACKIDX_V2_MAGIC then Inl GOT_ERR_BAD_PACKIDX
          else
     (case fread f1 4 of
        None \<Rightarrow> Inl GOT_ERR_BAD_PACKIDX
      | Some (v, f2) \<Rightarrow>
          if betoh32 v \<noteq> GOT_PACKIDX_VERSION then Inl GOT_ERR_BAD_PACKIDX
          else
     (case fread f2 (4 * 0x100) of
        None \<Rightarrow> Inl GOT_ERR_BAD_PACKIDX
      | Some (ft, f3) \<Rightarrow>
          (let p = \<lparr>magic = m, version = v, fanout_table = items 4 0x100 ft, sorted_ids = [],
                    crc32 = [], offsets = [], large_offsets = None,
                    trailer = \<lparr>packfile_sha1 = [], packidx_sha1 = []\<rparr>\<rparr>
           in (case verify_fanout_table (fanout_table p) of
                 Some err \<Rightarrow> Inl err
               | None \<Rightarrow> packidx_tables sha1 f3 (m @ v @ ft) packfile_size p)))))))"

text \<open>
  \<^verbatim>\<open>is_packidx_filename\<close>: the name has the length of \<^verbatim>\<open>pack-\<close>, 40 hexadecimal digits and
  \<^verbatim>\<open>.idx\<close>, begins with the first and ends with the last.
\<close>

definition GOT_PACK_PREFIX :: string where "GOT_PACK_PREFIX = ''pack-''"
definition GOT_PACKFILE_SUFFIX :: string where "GOT_PACKFILE_SUFFIX = ''.pack''"
definition GOT_PACKIDX_SUFFIX :: string where "GOT_PACKIDX_SUFFIX = ''.idx''"
definition SHA1_DIGEST_STRING_LENGTH :: nat where "SHA1_DIGEST_STRING_LENGTH = 41"

definition GOT_PACKIDX_NAMELEN :: nat where
  "GOT_PACKIDX_NAMELEN =
     length GOT_PACK_PREFIX + SHA1_DIGEST_STRING_LENGTH - 1 + length GOT_PACKIDX_SUFFIX"

definition is_packidx_filename :: "string \<Rightarrow> bool" where
  "is_packidx_filename name =
     (if length name \<noteq> GOT_PACKIDX_NAMELEN then False
      else if take (length GOT_PACK_PREFIX) name \<noteq> GOT_PACK_PREFIX then False
      else if drop (length GOT_PACK_PREFIX + SHA1_DIGEST_STRING_LENGTH - 1) name
                \<noteq> GOT_PACKIDX_SUFFIX then False
      else True)"

text \<open>
  \<^verbatim>\<open>get_object_offset\<close>.  \<open>index\<close> (\<^verbatim>\<open>idx\<close> in the source) is an index that
  \<^verbatim>\<open>get_object_idx\<close> found.  The result is an \<^verbatim>\<open>off_t\<close>, with -1 for failure, and \<open>None\<close>
  where the source reads outside an array (the test \<^verbatim>\<open>idx > totobj\<close> lets the index
  \<open>totobj\<close> through).
\<close>

definition get_object_offset :: "got_packidx_v2_hdr \<Rightarrow> int \<Rightarrow> u64 option" where
  "get_object_offset packidx index =
     (if index < 0 \<or> \<not> nat index < length (offsets packidx) then None
      else
        let totobj = betoh32 (fanout_table packidx ! 0xff);
            offset = betoh32 (offsets packidx ! nat index)
        in if offset AND GOT_PACKIDX_OFFSET_VAL_IS_LARGE_IDX \<noteq> 0
           then
             let idx' = offset AND GOT_PACKIDX_OFFSET_VAL_MASK
             in (case large_offsets packidx of
                   None \<Rightarrow> Some (- 1)
                 | Some larges \<Rightarrow>
                     if idx' > totobj then Some (- 1)
                     else if \<not> unat idx' < length larges then None
                     else
                       let loffset = betoh64 (larges ! unat idx')
                       in Some (if sint loffset < 0 then - 1 else loffset))
           else Some (ucast (offset AND GOT_PACKIDX_OFFSET_VAL_MASK)))"

text \<open>
  Modelled from the spec: \<^verbatim>\<open>got_object_id_cmp\<close> of object.c, which is not among the
  sources.  Object ids are ordered lexically, byte by byte; the result is negative, zero
  or positive as that of \<^verbatim>\<open>memcmp\<close>.
\<close>

fun got_object_id_cmp :: "u8 list \<Rightarrow> u8 list \<Rightarrow> int" where
  "got_object_id_cmp (a # as) (b # bs) =
     (if a < b then - 1 else if a > b then 1 else got_object_id_cmp as bs)"
| "got_object_id_cmp _ _ = 0"

text \<open>
  The loop of \<^verbatim>\<open>get_object_idx\<close>, with \<open>i\<close> the 32 bits of the \<^verbatim>\<open>int\<close> (compared with
  \<^verbatim>\<open>totobj\<close> as unsigned, returned as signed):
  \<^verbatim>\<open>while (i < totobj) {
      struct got_object_id *oid = &packidx->sorted_ids[i];
      int cmp = got_object_id_cmp(id, oid);
      if (cmp == 0) return i;
      else if (cmp > 0) break;
      i++;
  }
  return -1;\<close>
  \<open>None\<close> stands for a read outside \<^verbatim>\<open>sorted_ids\<close>.
\<close>

function object_idx_loop :: "u8 list list \<Rightarrow> u8 list \<Rightarrow> u32 \<Rightarrow> u32 \<Rightarrow> int option" where
  "object_idx_loop ids ident totobj i =
     (if i < totobj
      then (if sint i < 0 \<or> \<not> unat i < length ids then None
            else
              let cmp = got_object_id_cmp ident (ids ! unat i)
              in if cmp = 0 then Some (sint i)
                 else if cmp > 0 then Some (- 1)
                 else object_idx_loop ids ident totobj (i + 1))
      else Some (- 1))"
  by pat_completeness auto
termination
proof (relation "measure (\<lambda>(ids, ident, totobj, i). unat totobj - unat i)")
  show "wf (measure (\<lambda>(ids, ident, totobj, i). unat totobj - unat i))" by simp
next
  fix ids :: "u8 list list" and ident :: "u8 list" and totobj i :: u32 and x :: int
  assume lt: "i < totobj"
  then have u: "unat i < unat totobj" by (simp add: word_less_nat_alt)
  moreover have "unat totobj < 2 ^ 32" using unsigned_less[of totobj] by simp
  ultimately have "unat i + unat (1 :: u32) < 2 ^ LENGTH(32)" by simp
  then have "unat (i + 1) = unat i + 1" using unat_add_lem[of i 1] by simp
  with u show "((ids, ident, totobj, i + 1), (ids, ident, totobj, i))
        \<in> measure (\<lambda>(ids, ident, totobj, i). unat totobj - unat i)"
    by simp
qed

declare object_idx_loop.simps [simp del]

text \<open>
  \<^verbatim>\<open>get_object_idx\<close>: the scan starts at \<^verbatim>\<open>fanout_table[id0 - 1]\<close>, or at 0 for an id whose
  first byte is 0.
\<close>

definition get_object_idx :: "got_packidx_v2_hdr \<Rightarrow> u8 list \<Rightarrow> int option" where
  "get_object_idx packidx ident =
     (case ident of
        [] \<Rightarrow> None
      | id0 # _ \<Rightarrow>
          let totobj = betoh32 (fanout_table packidx ! 0xff);
              i = (if id0 > 0 then betoh32 (fanout_table packidx ! (unat id0 - 1)) else 0)
          in object_idx_loop (sorted_ids packidx) ident totobj i)"

section \<open>Pack index: two sample indexes\<close>

text \<open>
  An index of three objects, two of them in the bucket of the first byte \<^verbatim>\<open>0x42\<close>: the
  fan-out table counts one id up to \<^verbatim>\<open>0x41\<close> and three from \<^verbatim>\<open>0x42\<close> on.  \<open>id_d\<close> is not in
  the index.
\<close>

definition id_a :: "u8 list" where "id_a = 0x00 # replicate 18 0 @ [1]"
definition id_b :: "u8 list" where "id_b = 0x42 # replicate 19 0"
definition id_c :: "u8 list" where "id_c = 0x42 # replicate 19 0xff"
definition id_d :: "u8 list" where "id_d = replicate 20 0xff"

definition s1_packidx :: got_packidx_v2_hdr where
  "s1_packidx =
     \<lparr>magic = [0xff, 0x74, 0x4f, 0x63], version = [0, 0, 0, 2],
      fanout_table = replicate 0x42 [0, 0, 0, 1] @ replicate (0x100 - 0x42) [0, 0, 0, 3],
      sorted_ids = [id_a, id_b, id_c],
      crc32 = [[0, 0, 0, 0], [0, 0, 0, 0], [0, 0, 0, 0]],
      offsets = [[0, 0, 0, 12], [0, 0, 0, 40], [0, 0, 0, 80]],
      large_offsets = None,
      trailer = \<lparr>packfile_sha1 = replicate 20 0x11, packidx_sha1 = replicate 20 0x22\<rparr>\<rparr>"

text \<open>
  An index file without objects whose fan-out table is all zero but for entry 254, which
  is 1, together with its (empty) pack file.  The trailer carries the checksum of the file.
\<close>

definition bad_fanout :: "u8 list" where
  "bad_fanout = replicate (4 * 254) 0 @ [0, 0, 0, 1] @ [0, 0, 0, 0]"

definition bad_idx_body :: "u8 list" where
  "bad_idx_body = [0xff, 0x74, 0x4f, 0x63] @ [0, 0, 0, 2] @ bad_fanout"

definition bad_idx_file :: "(u8 list \<Rightarrow> u8 list) \<Rightarrow> u8 list" where
  "bad_idx_file sha1 =
     bad_idx_body @ replicate 20 0x11 @ sha1 (bad_idx_body @ replicate 20 0x11)"

definition empty_pack :: "u8 list" where
  "empty_pack = [0x50, 0x41, 0x43, 0x4b, 0, 0, 0, 2, 0, 0, 0, 0] @ replicate 20 0x11"

definition bad_fs :: "(u8 list \<Rightarrow> u8 list) \<Rightarrow> filesystem" where
  "bad_fs sha1 =
     \<lparr>files = (\<lambda>p. if p = ''pack-1111111111111111111111111111111111111111.idx''
                    then Some (bad_idx_file sha1)
                    else if p = ''pack-1111111111111111111111111111111111111111.pack''
                    then Some empty_pack else None),
      dirs = (\<lambda>p. None)\<rparr>"

section \<open>Packed objects\<close>

text \<open>
  Modelled from the spec: \<^verbatim>\<open>struct got_delta\<close> and \<^verbatim>\<open>got_delta_open\<close> of delta.h and
  delta.c, which are not among the sources.  The chain entry of a record holds the pack file
  it lives in, its type, its offset and its size, and \<^verbatim>\<open>got_delta_open\<close> makes it from
  these.
\<close>

record got_delta =
  delta_path_packfile :: string
  delta_type :: u8
  delta_offset :: u64
  delta_size :: u64

definition got_delta_open :: "string \<Rightarrow> u8 \<Rightarrow> u64 \<Rightarrow> u64 \<Rightarrow> got_delta" where
  "got_delta_open path_packfile t offset sz =
     \<lparr>delta_path_packfile = path_packfile, delta_type = t, delta_offset = offset,
      delta_size = sz\<rparr>"

text \<open>
  \<^verbatim>\<open>struct got_delta_chain\<close> as pack.c uses it: the number of entries and the queue of the
  entries, to which \<^verbatim>\<open>SIMPLEQ_INSERT_TAIL\<close> appends.
\<close>

record got_delta_chain =
  nentries :: int
  entries :: "got_delta list"

datatype got_obj_flag = GOT_OBJ_FLAG_PACKED | GOT_OBJ_FLAG_DELTIFIED

text \<open>
  \<^verbatim>\<open>struct got_object\<close> with the fields that pack.c sets; the flag bits are the set of the
  flags that are on.
\<close>

record got_object =
  obj_type :: u8
  flags :: "got_obj_flag set"
  hdrlen :: nat
  obj_size :: u64
  obj_id :: "u8 list"
  path_packfile :: string
  pack_offset :: u64
  deltas :: got_delta_chain

definition open_plain_object :: "string \<Rightarrow> u8 list \<Rightarrow> u8 \<Rightarrow> u64 \<Rightarrow> u64 \<Rightarrow> got_object" where
  "open_plain_object path ident t offset sz =
     \<lparr>obj_type = t, flags = {GOT_OBJ_FLAG_PACKED}, hdrlen = 0, obj_size = sz, obj_id = ident,
      path_packfile = path, pack_offset = offset, deltas = \<lparr>nentries = 0, entries = []\<rparr>\<rparr>"

section \<open>Extraction\<close>

text \<open>
  \<^verbatim>\<open>dump_plain_object\<close>:
  \<^verbatim>\<open>while (size > 0) {
      uint8_t data[2048];
      size_t len = MIN(size, sizeof(data));
      n = fread(data, len, 1, infile);
      if (n != 1) return got_ferror(infile, GOT_ERR_BAD_PACKFILE);
      n = fwrite(data, len, 1, outfile);
      if (n != 1) return got_ferror(outfile, GOT_ERR_IO);
      size -= len;
  }
  rewind(outfile);\<close>
  \<open>room\<close> is the size up to which the temporary file can grow; \<open>sz\<close> is \<^verbatim>\<open>size\<close>.
\<close>

function dump_plain_object :: "nat \<Rightarrow> FILE \<Rightarrow> nat \<Rightarrow> FILE \<Rightarrow> got_error + FILE" where
  "dump_plain_object room infile sz outfile =
     (if sz > 0
      then (let len = min sz 2048
            in case fread infile len of
                 None \<Rightarrow> Inl GOT_ERR_BAD_PACKFILE
               | Some (data, infile') \<Rightarrow>
                   (case fwrite room outfile data of
                      None \<Rightarrow> Inl GOT_ERR_IO
                    | Some outfile' \<Rightarrow> dump_plain_object room infile' (sz - len) outfile'))
      else Inr (rewind outfile))"
  by pat_completeness auto
termination
  by (relation "measure (\<lambda>(room, infile, sz, outfile). sz)") auto

declare dump_plain_object.simps [simp del]

text \<open>
  \<^verbatim>\<open>dump_ref_delta_object\<close>.  \<^verbatim>\<open>got_object_open\<close> (object.c) and \<^verbatim>\<open>got_delta_apply\<close>
  (delta.c) are not among the sources and are parameters.
\<close>

definition dump_ref_delta_object ::
  "(u8 list \<Rightarrow> got_error + got_object) \<Rightarrow>
   (FILE \<Rightarrow> nat \<Rightarrow> got_object \<Rightarrow> FILE \<Rightarrow> got_error + FILE) \<Rightarrow>
   FILE \<Rightarrow> nat \<Rightarrow> FILE \<Rightarrow> got_error + FILE" where
  "dump_ref_delta_object got_object_open got_delta_apply infile sz outfile =
     (if sz < SHA1_DIGEST_LENGTH then Inl GOT_ERR_BAD_PACKFILE
      else (case fread infile SHA1_DIGEST_LENGTH of
              None \<Rightarrow> Inl GOT_ERR_BAD_PACKFILE
            | Some (base_id, infile') \<Rightarrow>
                if sz - SHA1_DIGEST_LENGTH \<le> 0 then Inl GOT_ERR_BAD_PACKFILE
                else (case got_object_open base_id of
                        Inl err \<Rightarrow> Inl err
                      | Inr base_obj \<Rightarrow>
                          got_delta_apply infile' (sz - SHA1_DIGEST_LENGTH) base_obj outfile)))"

text \<open>
  \<^verbatim>\<open>got_packfile_extract_object\<close>.  \<open>opentemp\<close> is what \<^verbatim>\<open>got_opentemp\<close> answers: no file,
  or an empty file that can grow to \<open>room\<close> bytes.
\<close>

definition got_packfile_extract_object ::
  "(u8 list \<Rightarrow> got_error + got_object) \<Rightarrow>
   (FILE \<Rightarrow> nat \<Rightarrow> got_object \<Rightarrow> FILE \<Rightarrow> got_error + FILE) \<Rightarrow>
   filesystem \<Rightarrow> nat option \<Rightarrow> got_object \<Rightarrow> got_error + FILE" where
  "got_packfile_extract_object got_object_open got_delta_apply fs opentemp obj =
     (if GOT_OBJ_FLAG_PACKED \<notin> flags obj then Inl GOT_ERR_OBJ_NOT_PACKED
      else (case opentemp of
              None \<Rightarrow> Inl GOT_ERR_FILE_OPEN
            | Some room \<Rightarrow>
                (case fopen fs (path_packfile obj) of
                   None \<Rightarrow> Inl (GOT_ERR_ERRNO ''fopen'')
                 | Some packfile \<Rightarrow>
                     (case fseeko packfile (pack_offset obj) of
                        None \<Rightarrow> Inl (GOT_ERR_ERRNO ''fseeko'')
                      | Some packfile' \<Rightarrow>
                          if obj_type obj = GOT_OBJ_TYPE_COMMIT \<or> obj_type obj = GOT_OBJ_TYPE_TREE \<or>
                             obj_type obj = GOT_OBJ_TYPE_BLOB
                          then dump_plain_object room packfile' (unat (obj_size obj))
                                 \<lparr>bytes = [], pos = 0\<rparr>
                          else if obj_type obj = GOT_OBJ_TYPE_REF_DELTA
                          then dump_ref_delta_object got_object_open got_delta_apply packfile'
                                 (unat (obj_size obj)) \<lparr>bytes = [], pos = 0\<rparr>
                          else Inl GOT_ERR_NOT_IMPL))))"

text \<open>
  A pack file with one object, the blob whose content is the single character \<^verbatim>\<open>a\<close>: the
  header of the pack, the object header \<^verbatim>\<open>0x31\<close> (blob, size 1), the nine bytes that zlib
  makes of the content, and the SHA-1 of all that.  The object as \<^verbatim>\<open>open_plain_object\<close>
  makes it has its payload at offset 13.
\<close>

definition pack_a :: "u8 list" where
  "pack_a =
     [0x50, 0x41, 0x43, 0x4b, 0, 0, 0, 2, 0, 0, 0, 1] @ [0x31] @
     [0x78, 0x9c, 0x4b, 0x04, 0x00, 0x00, 0x62, 0x00, 0x62] @
     [0x46, 0xa1, 0x92, 0x62, 0x32, 0x11, 0xd8, 0x4c, 0x5a, 0x13,
      0x7b, 0x9f, 0x0e, 0xdd, 0xb5, 0xab, 0xb8, 0xd7, 0x54, 0x86]"

definition path_a :: string where
  "path_a = ''objects/pack/pack-46a192623211d84c5a137b9f0eddb5abb8d75486.pack''"

definition fs_a :: filesystem where
  "fs_a = \<lparr>files = (\<lambda>p. if p = path_a then Some pack_a else None), dirs = (\<lambda>p. None)\<rparr>"

definition blob_a :: got_object where
  "blob_a =
     open_plain_object path_a
       [0x2e, 0x65, 0xef, 0xe2, 0xa1, 0x45, 0xdd, 0xa7, 0xee, 0x51,
        0xd1, 0x74, 0x12, 0x99, 0xf8, 0x48, 0xe5, 0xbf, 0x75, 0x2e]
       GOT_OBJ_TYPE_BLOB 13 1"

section \<open>Delta chains\<close>

record got_repository =
  path_objects_pack :: string

text \<open>
  Modelled from the spec: \<^verbatim>\<open>got_sha1_digest_to_str\<close> of sha1.c, which is not among the
  sources, renders an id as 40 hexadecimal characters.
\<close>

definition hex_digit :: "nat \<Rightarrow> char" where
  "hex_digit n = ''0123456789abcdef'' ! n"

definition got_sha1_digest_to_str :: "u8 list \<Rightarrow> string" where
  "got_sha1_digest_to_str digest =
     concat (map (\<lambda>b. [hex_digit (unat b div 16), hex_digit (unat b mod 16)]) digest)"

text \<open>\<^verbatim>\<open>get_packfile_path\<close>: \<^verbatim>\<open>"%s/%s%s%s"\<close> of the pack directory, prefix, id and suffix.\<close>

definition get_packfile_path :: "got_repository \<Rightarrow> got_packidx_v2_hdr \<Rightarrow> string" where
  "get_packfile_path repo packidx =
     path_objects_pack repo @ ''/'' @ GOT_PACK_PREFIX @
     got_sha1_digest_to_str (packfile_sha1 (trailer packidx)) @ GOT_PACKFILE_SUFFIX"

text \<open>
  The loop of \<^verbatim>\<open>search_packidx\<close> over the names in the pack directory: each index file is
  opened and searched; the first error ends the search.  \<open>None\<close> stands for a read outside an
  array in \<^verbatim>\<open>get_object_idx\<close>.
\<close>

fun search_packidx_loop ::
  "(u8 list \<Rightarrow> u8 list) \<Rightarrow> filesystem \<Rightarrow> string \<Rightarrow> u8 list \<Rightarrow> string list \<Rightarrow>
   (got_error + got_packidx_v2_hdr \<times> int) option" where
  "search_packidx_loop sha1 fs path_packdir ident [] = Some (Inl GOT_ERR_NO_OBJ)"
| "search_packidx_loop sha1 fs path_packdir ident (d_name # names) =
     (if \<not> is_packidx_filename d_name then search_packidx_loop sha1 fs path_packdir ident names
      else (case got_packidx_open sha1 fs (path_packdir @ ''/'' @ d_name) of
              Inl err \<Rightarrow> Some (Inl err)
            | Inr packidx \<Rightarrow>
                (case get_object_idx packidx ident of
                   None \<Rightarrow> None
                 | Some index \<Rightarrow>
                     if index \<noteq> - 1 then Some (Inr (packidx, index))
                     else search_packidx_loop sha1 fs path_packdir ident names)))"

text \<open>
  \<^verbatim>\<open>search_packidx\<close>.  When the directory cannot be opened the source goes on to
  \<^verbatim>\<open>closedir\<close> with the null pointer; the model returns the error of \<^verbatim>\<open>opendir\<close>.
\<close>

definition search_packidx ::
  "(u8 list \<Rightarrow> u8 list) \<Rightarrow> filesystem \<Rightarrow> got_repository \<Rightarrow> u8 list \<Rightarrow>
   (got_error + got_packidx_v2_hdr \<times> int) option" where
  "search_packidx sha1 fs repo ident =
     (case dirs fs (path_objects_pack repo) of
        None \<Rightarrow> Some (Inl (GOT_ERR_ERRNO ''opendir''))
      | Some names \<Rightarrow> search_packidx_loop sha1 fs (path_objects_pack repo) ident names)"

text \<open>
  \<^verbatim>\<open>resolve_offset_delta\<close> up to its last statement, the call of \<^verbatim>\<open>resolve_delta_chain\<close>,
  whose arguments it returns: the pack file positioned behind the header of the base, the
  type of the base, \<^verbatim>\<open>base_offset + base_tslen\<close> and the size of the base.
\<close>

definition resolve_offset_delta :: "FILE \<Rightarrow> u64 \<Rightarrow> got_error + (FILE \<times> u8 \<times> u64 \<times> u64)" where
  "resolve_offset_delta packfile delta_off =
     (case parse_offset_delta packfile delta_off of
        Inl err \<Rightarrow> Inl err
      | Inr (base_offset, packfile1) \<Rightarrow>
          (case fseeko packfile1 base_offset of
             None \<Rightarrow> Inl (GOT_ERR_ERRNO ''fseeko'')
           | Some packfile2 \<Rightarrow>
               (case parse_object_type_and_size packfile2 of
                  Inl err \<Rightarrow> Inl err
                | Inr (base_type, base_size, base_tslen, packfile3) \<Rightarrow>
                    Inr (packfile3, base_type, base_offset + of_nat base_tslen, base_size))))"

text \<open>
  \<^verbatim>\<open>resolve_ref_delta\<close> up to its call of \<^verbatim>\<open>resolve_delta_chain\<close>: the id of the base is
  read and searched in the indexes of the repository, the pack file of the index that has it
  is opened at the offset of the base, and the header of the base is parsed.  The result
  has the base pack file and its path in addition.  \<open>None\<close> stands for a read outside an
  array.
\<close>

definition resolve_ref_delta ::
  "(u8 list \<Rightarrow> u8 list) \<Rightarrow> filesystem \<Rightarrow> got_repository \<Rightarrow> FILE \<Rightarrow>
   (got_error + (FILE \<times> string \<times> u8 \<times> u64 \<times> u64)) option" where
  "resolve_ref_delta sha1 fs repo packfile =
     (case fread packfile SHA1_DIGEST_LENGTH of
        None \<Rightarrow> Some (Inl GOT_ERR_IO)
      | Some (ident, packfile1) \<Rightarrow>
          (case search_packidx sha1 fs repo ident of
             None \<Rightarrow> None
           | Some (Inl err) \<Rightarrow> Some (Inl err)
           | Some (Inr (packidx, index)) \<Rightarrow>
               (case get_object_offset packidx index of
                  None \<Rightarrow> None
                | Some base_offset \<Rightarrow>
                    if base_offset = - 1 then Some (Inl GOT_ERR_BAD_PACKIDX)
                    else
                      (let path_base_packfile = get_packfile_path repo packidx
                       in (case fopen fs path_base_packfile of
                             None \<Rightarrow> Some (Inl (GOT_ERR_ERRNO ''fopen''))
                           | Some base_packfile \<Rightarrow>
                               (case fseeko base_packfile base_offset of
                                  None \<Rightarrow> Some (Inl (GOT_ERR_ERRNO ''fseeko''))
                                | Some base_packfile1 \<Rightarrow>
                                    (case parse_object_type_and_size base_packfile1 of
                                       Inl err \<Rightarrow> Some (Inl err)
                                     | Inr (base_type, base_size, base_tslen, base_packfile2) \<Rightarrow>
                                         Some (Inr (base_packfile2, path_base_packfile, base_type,
                                                    base_offset + of_nat base_tslen,
                                                    base_size)))))))))"

text \<open>
  What a call of \<^verbatim>\<open>resolve_delta_chain\<close> leaves behind when it returns: its error, if any,
  and the chain, which keeps the entries added before an error.  \<open>Undefined\<close> stands for a
  read outside an array on the way.
\<close>

datatype resolved = Undefined | Returned "got_error option" got_delta_chain

text \<open>
  \<^verbatim>\<open>resolve_delta_chain\<close>: the entry of the record is appended to the chain; a plain record
  ends the chain, a delta record continues it at its base, any other type is an error.  The
  source has no bound on the depth of the recursion, and the function need not return:
  \<open>None\<close> is the call that never returns.
\<close>

partial_function (option) resolve_delta_chain ::
  "(u8 list \<Rightarrow> u8 list) \<Rightarrow> filesystem \<Rightarrow> got_repository \<Rightarrow> got_delta_chain \<Rightarrow> FILE \<Rightarrow>
   string \<Rightarrow> u8 \<Rightarrow> u64 \<Rightarrow> u64 \<Rightarrow> resolved option" where
  "resolve_delta_chain sha1 fs repo chain packfile path t delta_off sz =
     (let chain1 = chain\<lparr>nentries := nentries chain + 1,
                          entries := entries chain @ [got_delta_open path t delta_off sz]\<rparr>
      in if t = GOT_OBJ_TYPE_COMMIT \<or> t = GOT_OBJ_TYPE_TREE \<or> t = GOT_OBJ_TYPE_BLOB \<or>
            t = GOT_OBJ_TYPE_TAG
         then Some (Returned None chain1)
         else if t = GOT_OBJ_TYPE_OFFSET_DELTA
         then (case resolve_offset_delta packfile delta_off of
                 Inl err \<Rightarrow> Some (Returned (Some err) chain1)
               | Inr (packfile', base_type, base_off, base_size) \<Rightarrow>
                   resolve_delta_chain sha1 fs repo chain1 packfile' path base_type base_off
                     base_size)
         else if t = GOT_OBJ_TYPE_REF_DELTA
         then (case resolve_ref_delta sha1 fs repo packfile of
                 None \<Rightarrow> Some Undefined
               | Some (Inl err) \<Rightarrow> Some (Returned (Some err) chain1)
               | Some (Inr (base_packfile, path_base, base_type, base_off, base_size)) \<Rightarrow>
                   resolve_delta_chain sha1 fs repo chain1 base_packfile path_base base_type
                     base_off base_size)
         else Some (Returned (Some GOT_ERR_NOT_IMPL) chain1))"

declare resolve_delta_chain.simps [code]

text \<open>The plain kinds, at which a chain ends.\<close>

definition plain_type :: "u8 \<Rightarrow> bool" where
  "plain_type t =
     (t = GOT_OBJ_TYPE_COMMIT \<or> t = GOT_OBJ_TYPE_TREE \<or> t = GOT_OBJ_TYPE_BLOB \<or>
      t = GOT_OBJ_TYPE_TAG)"

text \<open>
  Following the bases from a record of type \<open>t\<close>, with the arguments \<^verbatim>\<open>resolve_delta_chain\<close>
  would get, a record that is not a delta, or a step that fails with an error, is reached
  after at most \<open>n\<close> steps from delta to base.
\<close>

fun ends_within ::
  "(u8 list \<Rightarrow> u8 list) \<Rightarrow> filesystem \<Rightarrow> got_repository \<Rightarrow> nat \<Rightarrow> FILE \<Rightarrow> u8 \<Rightarrow> u64 \<Rightarrow> bool" where
  "ends_within sha1 fs repo n packfile t delta_off =
     (if plain_type t then True
      else if t = GOT_OBJ_TYPE_OFFSET_DELTA
      then (case resolve_offset_delta packfile delta_off of
              Inl err \<Rightarrow> True
            | Inr (packfile', base_type, base_off, base_size) \<Rightarrow>
                (case n of
                   0 \<Rightarrow> False
                 | Suc m \<Rightarrow> ends_within sha1 fs repo m packfile' base_type base_off))
      else if t = GOT_OBJ_TYPE_REF_DELTA
      then (case resolve_ref_delta sha1 fs repo packfile of
              None \<Rightarrow> False
            | Some (Inl err) \<Rightarrow> True
            | Some (Inr (base_packfile, path_base, base_type, base_off, base_size)) \<Rightarrow>
                (case n of
                   0 \<Rightarrow> False
                 | Suc m \<Rightarrow> ends_within sha1 fs repo m base_packfile base_type base_off))
      else True)"

declare ends_within.simps [simp del]


text \<open>
  Two pack files of two objects each.  In \<open>pack_s3\<close> the blob \<^verbatim>\<open>a\<close> is at offset 12 and an
  offset delta at offset 22 has the negative offset 10, so that its base is the blob.  In
  \<open>pack_cycle\<close> an offset delta at offset 12 has the negative offset 1 and an offset delta at
  offset 26 has the negative offset 14.  Each delta header gives the size 4, the
  payload is the deflated delta, and the last 20 bytes are the SHA-1 of the rest.
\<close>

definition pack_s3 :: "u8 list" where
  "pack_s3 =
     [0x50, 0x41, 0x43, 0x4b, 0x00, 0x00, 0x00, 0x02, 0x00, 0x00, 0x00, 0x02,
      0x31, 0x78, 0x9c, 0x4b, 0x04, 0x00, 0x00, 0x62, 0x00, 0x62, 0x64, 0x0a,
      0x78, 0x9c, 0x63, 0x64, 0x64, 0x4c, 0x02, 0x00, 0x00, 0x6f, 0x00, 0x66,
      0x6d, 0x68, 0x90, 0x0b, 0xd5, 0x59, 0x08, 0xd8, 0xad, 0xed, 0xcc, 0x30,
      0xaa, 0xa4, 0x4e, 0x2b, 0x13, 0x54, 0x46, 0x89]"

definition pack_cycle :: "u8 list" where
  "pack_cycle =
     [0x50, 0x41, 0x43, 0x4b, 0x00, 0x00, 0x00, 0x02, 0x00, 0x00, 0x00, 0x02,
      0x64, 0x01, 0x78, 0x9c, 0x63, 0x64, 0x64, 0x4c, 0x02, 0x00, 0x00, 0x6f,
      0x00, 0x66, 0x64, 0x0e, 0x78, 0x9c, 0x63, 0x64, 0x64, 0x4c, 0x02, 0x00,
      0x00, 0x6f, 0x00, 0x66, 0x43, 0x0c, 0xd5, 0x64, 0x7a, 0x7a, 0x50, 0xbc,
      0x59, 0xf0, 0x11, 0x1d, 0xd1, 0x5c, 0x6d, 0xd1, 0xdb, 0xc9, 0xd6, 0xb9]"

text \<open>
  A pack file of one object, an offset delta at offset 12 whose negative offset is 0.
\<close>

definition pack_zero :: "u8 list" where
  "pack_zero =
     [0x50, 0x41, 0x43, 0x4b, 0x00, 0x00, 0x00, 0x02, 0x00, 0x00, 0x00, 0x01,
      0x64, 0x00, 0x78, 0x9c, 0x63, 0x64, 0x64, 0x4c, 0x02, 0x00, 0x00, 0x6f,
      0x00, 0x66, 0xb6, 0x80, 0xd0, 0xb3, 0x26, 0xdc, 0x98, 0xe7, 0x24, 0xb1,
      0x69, 0x92, 0x2a, 0xfd, 0xbf, 0x9c, 0x21, 0xfa, 0x26, 0x1a]"

definition path_s3 :: string where
  "path_s3 = ''objects/pack/pack-6d68900bd55908d8adedcc30aaa44e2b13544689.pack''"

definition path_cycle :: string where
  "path_cycle = ''objects/pack/pack-430cd5647a7a50bc59f0111dd15c6dd1dbc9d6b9.pack''"

definition path_zero :: string where
  "path_zero = ''objects/pack/pack-b680d0b326dc98e724b169922afdbf9c21fa261a.pack''"

definition repo_pack :: got_repository where
  "repo_pack = \<lparr>path_objects_pack = ''objects/pack''\<rparr>"

definition fs_pack :: filesystem where
  "fs_pack =
     \<lparr>files = (\<lambda>p. if p = path_s3 then Some pack_s3
                    else if p = path_cycle then Some pack_cycle
                    else if p = path_zero then Some pack_zero
                    else None),
      dirs = (\<lambda>p. if p = ''objects/pack'' then Some [] else None)\<rparr>"


section \<open>Properties of tog\<close>

subsection \<open>Fatal signals\<close>

lemma fatal_signal_iff:
  "tog_fatal_signal_received s \<noteq> 0 \<longleftrightarrow>
   tog_sigpipe_received s \<noteq> 0 \<or> tog_sigint_received s \<noteq> 0"
  by (simp add: tog_fatal_signal_received_def)

text \<open>
  C7: the main loop is to stop once any of SIGINT, SIGPIPE or SIGTERM has been received.
  The predicate of the source never reads the SIGTERM flag: with only that flag set (the
  state the handler \<^verbatim>\<open>tog_sigterm\<close> leaves behind) it answers 0, and the guard of
  \<^verbatim>\<open>view_loop\<close> with a view open and \<open>done\<close> clear still holds, so the loop goes on.
\<close>

theorem sigterm_alone_keeps_looping:
  "tog_fatal_signal_received (tog_sigterm no_signals) = 0 \<and>
   view_loop_guard [TOG_VIEW_LOG] 0 (tog_sigterm no_signals)"
  by (simp add: tog_fatal_signal_received_def tog_sigterm_def no_signals_def view_loop_guard_def)

subsection \<open>Numeric key prefix\<close>

text \<open>
  Below the cap the loop is exact: a run of up to seven digits, closed by a key that is no
  digit, leaves its decimal value in \<^verbatim>\<open>view->count\<close> and returns the closing key.
\<close>

lemma accumulate_below_cap:
  "0 \<le> n \<Longrightarrow> n < 9999999 \<Longrightarrow> accumulate n c = n * 10 + (c - 48)"
  by (simp add: accumulate_def)

lemma compound_key_loop_exact:
  assumes "list_all (\<lambda>d. 48 \<le> d \<and> d \<le> 57) (c # ds)"
    and "0 \<le> n" and "(n + 1) * 10 ^ (length ds + 1) \<le> 10 ^ 7"
    and "case rest of [] \<Rightarrow> True | k # ks \<Rightarrow> \<not> (48 \<le> k \<and> k \<le> 57)"
  shows "compound_key_loop n c (ds @ rest) =
           (case rest of
              [] \<Rightarrow> (ERR, foldl (\<lambda>v d. v * 10 + (d - 48)) n (c # ds), [])
            | k # ks \<Rightarrow> (k, foldl (\<lambda>v d. v * 10 + (d - 48)) n (c # ds), ks))"
  using assms
proof (induction ds arbitrary: n c)
  case Nil
  then have "(n + 1) * 10 \<le> 10 ^ 7" by simp
  then have "n < 9999999" by simp
  with Nil show ?case
    by (cases rest) (auto simp: accumulate_below_cap)
next
  case (Cons d ds)
  define P :: int where "P = 10 ^ (length ds + 1)"
  have p: "1 \<le> P" unfolding P_def by (rule one_le_power) simp
  have "(n + 1) * (10 * P) \<le> 10 ^ 7"
    using Cons.prems(3) by (simp add: P_def)
  then have b: "(n * 10 + 10) * P \<le> 10 ^ 7"
    by (simp add: algebra_simps)
  have "(n * 10 + 10) * 1 \<le> (n * 10 + 10) * P"
    using Cons.prems(2) p by (intro mult_left_mono) auto
  with b have "n * 10 + 10 \<le> 10 ^ 7" by simp
  then have n: "n < 9999999" by simp
  let ?n' = "n * 10 + (c - 48)"
  have c: "48 \<le> c" "c \<le> 57" and d: "48 \<le> d" "d \<le> 57"
    and ds: "list_all (\<lambda>d. 48 \<le> d \<and> d \<le> 57) (d # ds)"
    using Cons.prems(1) by auto
  have n'0: "0 \<le> ?n'" using Cons.prems(2) c by simp
  have "(?n' + 1) * P \<le> (n * 10 + 10) * P"
    using c p by (intro mult_right_mono) auto
  with b have "(?n' + 1) * P \<le> 10 ^ 7" by linarith
  then have n'b: "(?n' + 1) * 10 ^ (length ds + 1) \<le> 10 ^ 7" unfolding P_def .
  have "compound_key_loop n c ((d # ds) @ rest) = compound_key_loop ?n' d (ds @ rest)"
    using d n Cons.prems(2) by (simp add: accumulate_below_cap ERR_def)
  also have "\<dots> = (case rest of
              [] \<Rightarrow> (ERR, foldl (\<lambda>v d. v * 10 + (d - 48)) ?n' (d # ds), [])
            | k # ks \<Rightarrow> (k, foldl (\<lambda>v d. v * 10 + (d - 48)) ?n' (d # ds), ks))"
    by (rule Cons.IH[OF ds n'0 n'b Cons.prems(4)])
  finally show ?case by (cases rest) simp_all
qed

lemma compound_key_up_to_seven_digits:
  assumes "list_all (\<lambda>d. 48 \<le> d \<and> d \<le> 57) (c # ds)" and "length (c # ds) \<le> 7"
    and "\<not> (48 \<le> k \<and> k \<le> 57)"
  shows "get_compound_key view c (ds @ k # ks) = (k, view\<lparr>count := decimal_value (c # ds)\<rparr>, ks)"
proof -
  have "(10::int) ^ (length ds + 1) \<le> 10 ^ 7"
    using assms(2) by (intro power_increasing) auto
  then have "((0::int) + 1) * 10 ^ (length ds + 1) \<le> 10 ^ 7" by simp
  from compound_key_loop_exact[OF assms(1) _ this, of "k # ks"] assms(3)
  show ?thesis by (simp add: get_compound_key_def decimal_value_def)
qed

text \<open>
  C8: the count is to be the decimal value of the digits, clamped to 9,999,999.  The
  source tests the cap before it multiplies, so a total below the cap takes one more digit:
  the keys 1 2 3 4 5 6 7 8 followed by \<^verbatim>\<open>j\<close> leave 12,345,678 in \<open>count\<close>, where the
  clamped decimal value is 9,999,999.
\<close>

theorem eight_digits_exceed_cap:
  "get_compound_key \<lparr>ch = 0, count = 0\<rparr> 49 [50, 51, 52, 53, 54, 55, 56, 106]
     = (106, \<lparr>ch = 0, count = 12345678\<rparr>, []) \<and>
   min (decimal_value [49, 50, 51, 52, 53, 54, 55, 56]) 9999999 = 9999999"
  by (simp add: get_compound_key_def accumulate_def decimal_value_def ERR_def)

subsection \<open>Commit queue\<close>

lemma free_commits_result:
  "ncommits q = int (length (head q)) \<Longrightarrow> free_commits q = Some (q\<lparr>head := [], ncommits := 0\<rparr>)"
proof (induction q rule: free_commits.induct)
  case (1 commits)
  show ?case
  proof (cases "head commits")
    case Nil
    with "1.prems" show ?thesis by simp
  next
    case (Cons e es)
    let ?q' = "commits\<lparr>head := es, ncommits := ncommits commits - 1\<rparr>"
    have pop: "pop_commit commits = Some ?q'" using Cons by (simp add: pop_commit_def)
    have "free_commits ?q' = Some (?q'\<lparr>head := [], ncommits := 0\<rparr>)"
      using "1.IH"[of ?q'] Cons pop "1.prems" by simp
    then show ?thesis using Cons pop by simp
  qed
qed

lemma queue_indexed_snoc:
  "queue_indexed q \<Longrightarrow>
   queue_indexed (q\<lparr>head := head q @ [e\<lparr>idx := ncommits q\<rparr>], ncommits := ncommits q + 1\<rparr>)"
  by (simp add: queue_indexed_def)

lemma queue_commits_indexed:
  "queue_indexed (commits a) \<Longrightarrow> queue_indexed (commits (fst (snd (queue_commits a graph))))"
proof (induction graph arbitrary: a)
  case Nil
  then show ?case by simp
next
  case (Cons g graph)
  show ?case
    using Cons.prems Cons.IH queue_indexed_snoc[OF Cons.prems]
    by (auto simp: Let_def split: sum.splits option.splits)
qed

lemma queue_step_indexed:
  assumes "queue_indexed (commits a)"
  shows "\<exists>a'. queue_step a op = Some a' \<and> queue_indexed (commits a')"
proof (cases op)
  case (Load graph)
  then show ?thesis using queue_commits_indexed[OF assms] by simp
next
  case Clear
  have "ncommits (commits a) = int (length (head (commits a)))"
    using assms by (simp add: queue_indexed_def)
  from free_commits_result[OF this] Clear show ?thesis
    by (simp add: queue_indexed_def)
next
  case (Search s d)
  then show ?thesis using assms by simp
qed

lemma queue_run_indexed:
  "queue_indexed (commits a) \<Longrightarrow> \<exists>a'. queue_run a ops = Some a' \<and> queue_indexed (commits a')"
proof (induction ops arbitrary: a)
  case Nil
  then show ?case by simp
next
  case (Cons op ops)
  from queue_step_indexed[OF Cons.prems, of op]
  obtain a1 where s: "queue_step a op = Some a1" and i: "queue_indexed (commits a1)" by blast
  from Cons.IH[OF i] s show ?case by simp
qed

text \<open>
  C10: after every sequence of queue operations of the program, starting from the queue
  that \<^verbatim>\<open>open_log_view\<close> sets up (loads by the loader thread, clears with
  \<^verbatim>\<open>free_commits\<close>, which pops until the queue is empty, and changes of the search
  fields in between), the run is defined and the entries read head to tail carry the indices
  0, 1, 2, ..., with \<open>ncommits\<close> their number.
\<close>

theorem commit_queue_indices:
  "\<exists>a. queue_run (open_log_view :: ('i, 'c) tog_log_thread_args) ops = Some a \<and>
       queue_indexed (commits a)"
  by (rule queue_run_indexed) (simp add: open_log_view_def queue_indexed_def)

subsection \<open>Blame cancellation\<close>

lemma blame_cb_quit:
  "quit a \<noteq> 0 \<Longrightarrow> \<exists>err. blame_cb env a nl ln i = Some (err, a)"
  by (simp add: blame_cb_def)

lemma blame_cb_quit_err:
  "quit a \<noteq> 0 \<Longrightarrow> call_in_order a (env, nl, ln, i) \<Longrightarrow>
   blame_cb env a nl ln i = Some (Some GOT_ERR_ITER_COMPLETED, a)"
  by (auto simp: blame_cb_def call_in_order_def blame_cb_done_def)

lemma blame_cb_run_quit:
  "quit a \<noteq> 0 \<Longrightarrow>
   \<exists>errs. blame_cb_run a calls = Some (errs, a) \<and>
     list_all2 (\<lambda>call err. call_in_order a call \<longrightarrow> err = Some GOT_ERR_ITER_COMPLETED) calls errs"
proof (induction calls)
  case Nil
  then show ?case by simp
next
  case (Cons call calls)
  obtain env nl ln i where call: "call = (env, nl, ln, i)" by (cases call) auto
  from blame_cb_quit[OF Cons.prems, of env nl ln i]
  obtain err where e: "blame_cb env a nl ln i = Some (err, a)" by blast
  have ok: "call_in_order a call \<longrightarrow> err = Some GOT_ERR_ITER_COMPLETED"
    using blame_cb_quit_err[OF Cons.prems, of env nl ln i] e call by auto
  from Cons.IH[OF Cons.prems] obtain errs where
    r: "blame_cb_run a calls = Some (errs, a)" and
    l: "list_all2 (\<lambda>call err. call_in_order a call \<longrightarrow> err = Some GOT_ERR_ITER_COMPLETED) calls errs"
    by blast
  show ?case using e r l ok call by simp
qed

lemma blame_thread_keeps_iter_completed:
  "th_lock_errcode env = 0 \<Longrightarrow>
   blame_thread_result env (Some GOT_ERR_ITER_COMPLETED) = Some GOT_ERR_ITER_COMPLETED"
  by (simp add: blame_thread_result_def)

lemma stop_blame_iter_completed:
  "thread blame = Some (Some GOT_ERR_ITER_COMPLETED) \<Longrightarrow> join_in_order env blame \<Longrightarrow>
   fst (stop_blame env blame) = None"
  by (auto simp: stop_blame_def join_in_order_def Let_def split: option.splits)

text \<open>
  C9: once the quit flag of the blame view is set, no later invocation of the annotation
  callback changes a line slot: every run of invocations, whatever their arguments, is
  defined and leaves the callback's arguments (the slots, their number and the flag) as they
  were.  Each invocation that is in order returns \<^verbatim>\<open>GOT_ERR_ITER_COMPLETED\<close>; the worker
  hands this error on unchanged, and \<^verbatim>\<open>stop_blame\<close>, joining a worker that returned it,
  reports success.
\<close>

theorem blame_cancelled_no_writes:
  assumes "quit a \<noteq> 0"
  shows "(\<exists>errs. blame_cb_run a calls = Some (errs, a) \<and>
            list_all2 (\<lambda>call err. call_in_order a call \<longrightarrow> err = Some GOT_ERR_ITER_COMPLETED)
              calls errs) \<and>
         (th_lock_errcode tenv = 0 \<longrightarrow>
            blame_thread_result tenv (Some GOT_ERR_ITER_COMPLETED) = Some GOT_ERR_ITER_COMPLETED) \<and>
         (thread blame = Some (Some GOT_ERR_ITER_COMPLETED) \<and> join_in_order jenv blame \<longrightarrow>
            fst (stop_blame jenv blame) = None)"
  using blame_cb_run_quit[OF assms] blame_thread_keeps_iter_completed stop_blame_iter_completed
  by blast

theorem blame_cancelled_no_writes_witness:
  "quit \<lparr>lines = [\<lparr>annotated = 0, line_id = None\<rparr>, \<lparr>annotated = 0, line_id = None\<rparr>],
         nlines = 2, quit = 1\<rparr> \<noteq> 0 \<and>
   blame_cb_run
     \<lparr>lines = [\<lparr>annotated = 0, line_id = None\<rparr>, \<lparr>annotated = 0, line_id = None\<rparr>],
      nlines = 2, quit = 1\<rparr>
     [(\<lparr>cb_lock_errcode = 0, cb_dup_ok = True, cb_unlock_errcode = 0\<rparr>, 2, 1, 7 :: nat),
      (\<lparr>cb_lock_errcode = 0, cb_dup_ok = True, cb_unlock_errcode = 0\<rparr>, 2, 5, 8)]
     = Some ([Some GOT_ERR_ITER_COMPLETED, Some GOT_ERR_RANGE],
             \<lparr>lines = [\<lparr>annotated = 0, line_id = None\<rparr>, \<lparr>annotated = 0, line_id = None\<rparr>],
              nlines = 2, quit = 1\<rparr>) \<and>
   blame_thread_result
     \<lparr>th_lock_errcode = 0, th_repo_close = None, th_unlock_errcode = 0, th_close_ok = True\<rparr>
     (Some GOT_ERR_ITER_COMPLETED) = Some GOT_ERR_ITER_COMPLETED \<and>
   fst (stop_blame \<lparr>j_unlock_errcode = 0, j_join_errcode = 0, j_lock_errcode = 0\<rparr>
          \<lparr>thread = Some (Some GOT_ERR_ITER_COMPLETED), thread_repo = None, blame_f = Some True,
           blame_lines = Some [\<lparr>annotated = 0, line_id = None :: nat option\<rparr>],
           pack_fds = Some None\<rparr>) = None"
  using blame_cancelled_no_writes
    [of "\<lparr>lines = [\<lparr>annotated = 0, line_id = None\<rparr>, \<lparr>annotated = 0, line_id = None\<rparr>],
          nlines = 2, quit = 1\<rparr>"
        "[(\<lparr>cb_lock_errcode = 0, cb_dup_ok = True, cb_unlock_errcode = 0\<rparr>, 2, 1, 7 :: nat),
          (\<lparr>cb_lock_errcode = 0, cb_dup_ok = True, cb_unlock_errcode = 0\<rparr>, 2, 5, 8)]"
        "\<lparr>th_lock_errcode = 0, th_repo_close = None, th_unlock_errcode = 0, th_close_ok = True\<rparr>"
        "\<lparr>thread = Some (Some GOT_ERR_ITER_COMPLETED), thread_repo = None, blame_f = Some True,
          blame_lines = Some [\<lparr>annotated = 0, line_id = None :: nat option\<rparr>],
          pack_fds = Some None\<rparr>"
        "\<lparr>j_unlock_errcode = 0, j_join_errcode = 0, j_lock_errcode = 0\<rparr>"]
  by (simp add: blame_cb_def blame_cb_done_def blame_thread_result_def stop_blame_def
      join_in_order_def)

section \<open>Properties of the pack reader\<close>

subsection \<open>Object headers\<close>

lemma type_and_size_all_more:
  "\<forall>k < 10 - i. pos f + k < length (bytes f) \<and>
       bytes f ! (pos f + k) AND GOT_PACK_OBJ_SIZE_MORE \<noteq> 0 \<Longrightarrow>
   type_and_size_loop f i t s = Inl GOT_ERR_NO_SPACE"
proof (induction "10 - i" arbitrary: f i t s)
  case 0
  then have "i > 9" by simp
  then show ?case by (subst type_and_size_loop.simps) simp
next
  case (Suc n)
  then have i: "\<not> i > 9" and n: "n = 10 - (i + 1)" by auto
  from Suc.prems have k0: "pos f < length (bytes f)"
    "bytes f ! pos f AND GOT_PACK_OBJ_SIZE_MORE \<noteq> 0"
    using Suc.hyps(2) by (metis add.right_neutral zero_less_Suc)+
  let ?f' = "f\<lparr>pos := pos f + 1\<rparr>"
  have rd: "fread_byte f = Some (bytes f ! pos f, ?f')" using k0 by (simp add: fread_byte_def)
  have "\<forall>k < 10 - (i + 1). pos ?f' + k < length (bytes ?f') \<and>
       bytes ?f' ! (pos ?f' + k) AND GOT_PACK_OBJ_SIZE_MORE \<noteq> 0"
  proof (intro allI impI)
    fix k assume "k < 10 - (i + 1)"
    then have "Suc k < 10 - i" by simp
    with Suc.prems have "pos f + Suc k < length (bytes f) \<and>
       bytes f ! (pos f + Suc k) AND GOT_PACK_OBJ_SIZE_MORE \<noteq> 0" by blast
    then show "pos ?f' + k < length (bytes ?f') \<and>
       bytes ?f' ! (pos ?f' + k) AND GOT_PACK_OBJ_SIZE_MORE \<noteq> 0" by simp
  qed
  from Suc.hyps(1)[OF n this]
  have rec: "\<And>t s. type_and_size_loop (f\<lparr>pos := Suc (pos f)\<rparr>) (Suc i) t s = Inl GOT_ERR_NO_SPACE"
    by simp
  show ?case
    by (subst type_and_size_loop.simps) (simp add: i rd k0 rec Let_def)
qed

lemma type_and_size_loop_len:
  "type_and_size_loop f i t s = Inr (t', s', len, f') \<Longrightarrow>
   i < len \<and> len \<le> 10 \<and> pos f' = pos f + (len - i) \<and> bytes f' = bytes f"
proof (induction "10 - i" arbitrary: f i t s)
  case 0
  then have "i > 9" by simp
  with "0.prems" show ?case by (subst (asm) type_and_size_loop.simps) simp
next
  case (Suc n)
  then have i: "\<not> i > 9" and n: "n = 10 - Suc i" by auto
  from Suc.prems i obtain b where rd: "fread_byte f = Some (b, f\<lparr>pos := Suc (pos f)\<rparr>)"
    by (subst (asm) type_and_size_loop.simps)
       (auto simp: fread_byte_def split: option.splits if_splits)
  show ?case
  proof (cases "b AND GOT_PACK_OBJ_SIZE_MORE \<noteq> 0")
    case True
    with Suc.prems i rd obtain t1 s1 where
      "type_and_size_loop (f\<lparr>pos := Suc (pos f)\<rparr>) (Suc i) t1 s1 = Inr (t', s', len, f')"
      by (subst (asm) type_and_size_loop.simps) (simp add: Let_def)
    from Suc.hyps(1)[OF n this] show ?thesis by auto
  next
    case False
    with Suc.prems i rd show ?thesis
      by (subst (asm) type_and_size_loop.simps) (auto simp: Let_def)
  qed
qed

lemma parse_object_type_and_size_len:
  "parse_object_type_and_size f = Inr (t, s, len, f') \<Longrightarrow>
   0 < len \<and> len \<le> 10 \<and> pos f' = pos f + len \<and> bytes f' = bytes f"
  using type_and_size_loop_len[of f 0 0 0 t s len f']
  by (simp add: parse_object_type_and_size_def)

text \<open>
  C5, as the spec has it: a type-and-size header of 10 bytes is rejected.  The source
  tests \<^verbatim>\<open>i > 9\<close> before it reads byte \<open>i\<close>, so bytes 0 to 9 are read; a header whose
  tenth byte ends it is accepted.  Here it is a blob whose size has bit 60 set.
\<close>

theorem ten_byte_header_accepted:
  "parse_object_type_and_size
     \<lparr>bytes = [0xB0, 0x80, 0x80, 0x80, 0x80, 0x80, 0x80, 0x80, 0x80, 0x01], pos = 0\<rparr>
   = Inr (3, 0x1000000000000000, 10,
          \<lparr>bytes = [0xB0, 0x80, 0x80, 0x80, 0x80, 0x80, 0x80, 0x80, 0x80, 0x01], pos = 10\<rparr>)"
  by code_simp

text \<open>
  C5, amended: a header longer than 10 bytes is rejected.  Whenever the ten bytes at the
  position of the stream all have the continuation bit set, so that the header would take an
  eleventh byte, \<^verbatim>\<open>parse_object_type_and_size\<close> fails with \<^verbatim>\<open>GOT_ERR_NO_SPACE\<close>.
\<close>

theorem header_longer_than_ten_rejected:
  assumes "pos f + 10 \<le> length (bytes f)"
    and "list_all (\<lambda>b. b AND GOT_PACK_OBJ_SIZE_MORE \<noteq> 0) (take 10 (drop (pos f) (bytes f)))"
  shows "parse_object_type_and_size f = Inl GOT_ERR_NO_SPACE"
proof -
  have "\<forall>k < 10 - 0. pos f + k < length (bytes f) \<and>
       bytes f ! (pos f + k) AND GOT_PACK_OBJ_SIZE_MORE \<noteq> 0"
  proof (intro allI impI)
    fix k :: nat assume k: "k < 10 - 0"
    then have "k < length (take 10 (drop (pos f) (bytes f)))" using assms(1) by simp
    with assms(2) have "take 10 (drop (pos f) (bytes f)) ! k AND GOT_PACK_OBJ_SIZE_MORE \<noteq> 0"
      by (simp add: list_all_length)
    then show "pos f + k < length (bytes f) \<and>
       bytes f ! (pos f + k) AND GOT_PACK_OBJ_SIZE_MORE \<noteq> 0"
      using k assms(1) by simp
  qed
  from type_and_size_all_more[OF this] show ?thesis
    by (simp add: parse_object_type_and_size_def)
qed

theorem header_longer_than_ten_rejected_witness:
  "pos \<lparr>bytes = [0xB0, 0x80, 0x80, 0x80, 0x80, 0x80, 0x80, 0x80, 0x80, 0x81, 0x01], pos = 0\<rparr> + 10
     \<le> length (bytes \<lparr>bytes = [0xB0, 0x80, 0x80, 0x80, 0x80, 0x80, 0x80, 0x80, 0x80, 0x81, 0x01],
                       pos = 0\<rparr>) \<and>
   list_all (\<lambda>b. b AND GOT_PACK_OBJ_SIZE_MORE \<noteq> 0)
     (take 10 [0xB0, 0x80, 0x80, 0x80, 0x80, 0x80, 0x80, 0x80, 0x80, 0x81, 0x01]) \<and>
   parse_object_type_and_size
     \<lparr>bytes = [0xB0, 0x80, 0x80, 0x80, 0x80, 0x80, 0x80, 0x80, 0x80, 0x81, 0x01], pos = 0\<rparr>
     = Inl GOT_ERR_NO_SPACE"
  using header_longer_than_ten_rejected
    [of "\<lparr>bytes = [0xB0, 0x80, 0x80, 0x80, 0x80, 0x80, 0x80, 0x80, 0x80, 0x81, 0x01], pos = 0\<rparr>"]
  by (simp add: GOT_PACK_OBJ_SIZE_MORE_def)

subsection \<open>Offset deltas\<close>




subsection \<open>Fan-out table\<close>

lemma verify_fanout_loop_iff:
  "verify_fanout_loop ft i =
     (if \<exists>j. i \<le> j \<and> j < 254 \<and> betoh32 (ft ! j) > betoh32 (ft ! Suc j)
      then Some GOT_ERR_BAD_PACKIDX else None)"
proof (induction "254 - i" arbitrary: i)
  case 0
  then have "\<not> i < 254" by simp
  then show ?case by (subst verify_fanout_loop.simps) auto
next
  case (Suc n)
  then have i: "i < 254" and n: "n = 254 - Suc i" by auto
  note IH = Suc.hyps(1)[OF n]
  show ?case
  proof (cases "betoh32 (ft ! i) > betoh32 (ft ! Suc i)")
    case True
    then have "\<exists>j. i \<le> j \<and> j < 254 \<and> betoh32 (ft ! j) > betoh32 (ft ! Suc j)"
      using i by blast
    then show ?thesis using True i by (subst verify_fanout_loop.simps) simp
  next
    case False
    have "(\<exists>j. i \<le> j \<and> j < 254 \<and> betoh32 (ft ! j) > betoh32 (ft ! Suc j)) \<longleftrightarrow>
      (\<exists>j. Suc i \<le> j \<and> j < 254 \<and> betoh32 (ft ! j) > betoh32 (ft ! Suc j))"
      using False by (metis Suc_leD Suc_leI le_neq_implies_less)
    then show ?thesis using False i IH
      by (subst verify_fanout_loop.simps) simp
  qed
qed

lemma verify_fanout_table_iff:
  "verify_fanout_table ft =
     (if \<exists>j < 254. betoh32 (ft ! j) > betoh32 (ft ! Suc j)
      then Some GOT_ERR_BAD_PACKIDX else None)"
  by (simp add: verify_fanout_table_def verify_fanout_loop_iff)

lemma items_nth: "i < n \<Longrightarrow> items len n bs ! i = take len (drop (len * i) bs)"
proof (induction n arbitrary: i bs)
  case 0
  then show ?case by simp
next
  case (Suc n)
  then show ?case by (cases i) (simp_all add: add.commute)
qed

lemma length_items: "length (items len n bs) = n"
  by (induction n arbitrary: bs) simp_all

lemma betoh32_zeros: "betoh32 (replicate n 0) = 0"
proof -
  have "foldl (\<lambda>v b. push_bit 8 v OR ucast b) (0 :: u32) (replicate n (0 :: u8)) = 0"
    by (induction n) simp_all
  then show ?thesis by (simp add: betoh32_def)
qed

lemma bad_fanout_low: "j < 254 \<Longrightarrow> items 4 0x100 bad_fanout ! j = replicate 4 0"
  by (simp add: items_nth bad_fanout_def min_def)

lemma bad_fanout_254: "items 4 0x100 bad_fanout ! 254 = [0, 0, 0, 1]"
  by (simp add: items_nth bad_fanout_def)

lemma bad_fanout_255: "items 4 0x100 bad_fanout ! 255 = [0, 0, 0, 0]"
  by (simp add: items_nth bad_fanout_def)

lemma bad_fanout_verified: "verify_fanout_table (items 4 0x100 bad_fanout) = None"
proof -
  have "\<not> (\<exists>j < 254. betoh32 (items 4 0x100 bad_fanout ! j) > betoh32 (items 4 0x100 bad_fanout ! Suc j))"
    by (auto simp: bad_fanout_low betoh32_zeros)
  then show ?thesis by (simp only: verify_fanout_table_iff if_False)
qed


lemma fread_at:
  "bytes f = pre @ xs @ post \<Longrightarrow> pos f = length pre \<Longrightarrow> n = length xs \<Longrightarrow>
   fread f n = Some (xs, f\<lparr>pos := length pre + n\<rparr>)"
  by (simp add: fread_def)

lemma bad_size:
  "get_packfile_size (bad_fs sha1) ''pack-1111111111111111111111111111111111111111.idx'' = Inr 32"
  by (simp add: get_packfile_size_def bad_fs_def PATH_MAX_def empty_pack_def)

lemma length_bad_fanout: "length bad_fanout = 1024"
  by (simp add: bad_fanout_def)

text \<open>
  C4: an index whose fan-out table decreases anywhere, the last pair included, is to be
  rejected with \<^verbatim>\<open>GOT_ERR_BAD_PACKIDX\<close>.  The loop of \<^verbatim>\<open>verify_fanout_table\<close> stops at
  \<^verbatim>\<open>i < 0xff - 1\<close>, so the pairs (0, 1) to (253, 254) are compared and the pair (254, 255)
  is not: the index file with \<^verbatim>\<open>fanout[254] = 1\<close> and \<^verbatim>\<open>fanout[255] = 0\<close> is opened without
  error, for every hash function with digests of 20 bytes.
\<close>

theorem final_fanout_pair_unchecked:
  assumes "\<And>x. length (sha1 x) = SHA1_DIGEST_LENGTH"
  shows "\<exists>p. got_packidx_open sha1 (bad_fs sha1)
               ''pack-1111111111111111111111111111111111111111.idx'' = Inr p \<and>
             betoh32 (fanout_table p ! 254) > betoh32 (fanout_table p ! 255)"
proof -
  let ?m = "[0xff, 0x74, 0x4f, 0x63] :: u8 list"
  let ?v = "[0, 0, 0, 2] :: u8 list"
  let ?pid = "replicate 20 0x11 :: u8 list"
  let ?sum = "sha1 (bad_idx_body @ ?pid)"
  let ?B = "bad_idx_file sha1"
  let ?f = "\<lambda>n. \<lparr>bytes = ?B, pos = n\<rparr>"
  have B: "?B = ?m @ ?v @ bad_fanout @ ?pid @ ?sum"
    by (simp add: bad_idx_file_def bad_idx_body_def)
  have len: "length ?sum = 20" using assms by (simp add: SHA1_DIGEST_LENGTH_def)
  have op: "fopen (bad_fs sha1) ''pack-1111111111111111111111111111111111111111.idx'' = Some (?f 0)"
    by (simp add: fopen_def bad_fs_def)
  have r1: "fread (?f 0) 4 = Some (?m, ?f 4)"
    using fread_at[of "?f 0" "[]" ?m "?v @ bad_fanout @ ?pid @ ?sum" 4] B by simp
  have r2: "fread (?f 4) 4 = Some (?v, ?f 8)"
    using fread_at[of "?f 4" ?m ?v "bad_fanout @ ?pid @ ?sum" 4] B by simp
  have r3: "fread (?f 8) (4 * 0x100) = Some (bad_fanout, ?f 1032)"
    using fread_at[of "?f 8" "?m @ ?v" bad_fanout "?pid @ ?sum" "4 * 0x100"] B
    by (simp add: length_bad_fanout)
  have r0: "\<And>k. fread_items (?f 1032) k 0 = Some ([], ?f 1032)"
    by (simp add: fread_items_def fread_def B length_bad_fanout)
  have r4: "fread (?f 1032) (2 * SHA1_DIGEST_LENGTH) = Some (?pid @ ?sum, ?f 1072)"
    using fread_at[of "?f 1032" "?m @ ?v @ bad_fanout" "?pid @ ?sum" "[]" "2 * SHA1_DIGEST_LENGTH"] B len
    by (simp add: length_bad_fanout SHA1_DIGEST_LENGTH_def)
  have nobj: "unat (betoh32 (items 4 0x100 bad_fanout ! 0xff)) = 0"
    using bad_fanout_255 by (simp add: betoh32_def)
  have m: "betoh32 ?m = GOT_PACKIDX_V2_MAGIC"
    by (simp add: betoh32_def GOT_PACKIDX_V2_MAGIC_def)
  have v: "betoh32 ?v = GOT_PACKIDX_VERSION"
    by (simp add: betoh32_def GOT_PACKIDX_VERSION_def)
  let ?p = "\<lparr>magic = ?m, version = ?v, fanout_table = items 4 0x100 bad_fanout, sorted_ids = [],
             crc32 = [], offsets = [], large_offsets = None,
             trailer = \<lparr>packfile_sha1 = ?pid, packidx_sha1 = ?sum\<rparr>\<rparr>"
  have ck: "packidx_checksum sha1 (?f 1032) (?m @ ?v @ bad_fanout)
              (?p\<lparr>trailer := \<lparr>packfile_sha1 = [], packidx_sha1 = []\<rparr>\<rparr>) = Inr ?p"
    using r4 by (simp add: packidx_checksum_def SHA1_DIGEST_LENGTH_def bad_idx_body_def)
  have tb: "packidx_tables sha1 (?f 1032) (?m @ ?v @ bad_fanout) 32
              (?p\<lparr>trailer := \<lparr>packfile_sha1 = [], packidx_sha1 = []\<rparr>\<rparr>) = Inr ?p"
    using ck nobj r0 by (simp add: packidx_tables_def)
  have "got_packidx_open sha1 (bad_fs sha1)
          ''pack-1111111111111111111111111111111111111111.idx'' = Inr ?p"
    using op bad_size r1 r2 r3 m v bad_fanout_verified tb
    by (simp add: got_packidx_open_def)
  moreover have "betoh32 (fanout_table ?p ! 254) > betoh32 (fanout_table ?p ! 255)"
    using bad_fanout_254 bad_fanout_255 by (simp add: betoh32_def)
  ultimately show ?thesis by blast
qed

theorem final_fanout_pair_unchecked_witness:
  "\<exists>p. got_packidx_open (\<lambda>bs. replicate 20 0) (bad_fs (\<lambda>bs. replicate 20 0))
               ''pack-1111111111111111111111111111111111111111.idx'' = Inr p \<and>
       betoh32 (fanout_table p ! 254) > betoh32 (fanout_table p ! 255)"
  using final_fanout_pair_unchecked[of "\<lambda>bs. replicate 20 0"]
  by (simp add: SHA1_DIGEST_LENGTH_def)

subsection \<open>Lookup\<close>

text \<open>
  What the scan does guarantee: an index it returns other than -1 is a position of the table
  and holds the id that was asked for.
\<close>

lemma got_object_id_cmp_eq:
  "length a = length b \<Longrightarrow> got_object_id_cmp a b = 0 \<longleftrightarrow> a = b"
  by (induction a b rule: got_object_id_cmp.induct) auto

lemma nat_sint_unat:
  fixes i :: u32
  assumes "\<not> sint i < 0"
  shows "nat (sint i) = unat i"
proof -
  have "sint i < 2 ^ 32" using sint_lt[of i] by simp
  then have "take_bit 32 (sint i) = sint i"
    using assms by (intro take_bit_int_eq_self) auto
  then have "uint i = sint i" using uint_sint[of i] by simp
  then show ?thesis by (simp add: unat_eq_nat_uint)
qed

lemma object_idx_loop_found:
  "object_idx_loop ids x totobj i = Some k \<Longrightarrow> k \<noteq> - 1 \<Longrightarrow>
   0 \<le> k \<and> nat k < length ids \<and> got_object_id_cmp x (ids ! nat k) = 0"
proof (induction ids x totobj i rule: object_idx_loop.induct)
  case (1 ids ident totobj i)
  from "1.prems" have lt: "i < totobj" and ok: "\<not> sint i < 0" "unat i < length ids"
    by (subst (asm) object_idx_loop.simps, simp split: if_splits)+
  show ?case
  proof (cases "got_object_id_cmp ident (ids ! unat i) = 0")
    case True
    with "1.prems" lt ok have "k = sint i"
      by (subst (asm) object_idx_loop.simps) (simp add: Let_def)
    with True ok show ?thesis by (simp add: nat_sint_unat)
  next
    case False
    with "1.prems" lt ok have neg: "\<not> got_object_id_cmp ident (ids ! unat i) > 0"
      and rec: "object_idx_loop ids ident totobj (i + 1) = Some k"
      by (subst (asm) object_idx_loop.simps, simp add: Let_def split: if_splits)+
    from "1.IH"[OF lt _ refl False neg rec "1.prems"(2)] ok show ?thesis by simp
  qed
qed

lemma get_object_idx_found:
  assumes "get_object_idx packidx x = Some k" and "k \<noteq> - 1"
    and "list_all (\<lambda>y. length y = length x) (sorted_ids packidx)"
  shows "0 \<le> k \<and> nat k < length (sorted_ids packidx) \<and> sorted_ids packidx ! nat k = x"
proof -
  from assms(1) obtain totobj i where
    "object_idx_loop (sorted_ids packidx) x totobj i = Some k"
    by (auto simp: get_object_idx_def Let_def split: list.splits)
  from object_idx_loop_found[OF this assms(2)]
  have k: "0 \<le> k" "nat k < length (sorted_ids packidx)"
    "got_object_id_cmp x (sorted_ids packidx ! nat k) = 0" by auto
  from assms(3) k(2) have "length (sorted_ids packidx ! nat k) = length x"
    by (simp add: list_all_length)
  with k show ?thesis using got_object_id_cmp_eq[of x "sorted_ids packidx ! nat k"] by auto
qed

text \<open>
  C1: the lookup of an id that the index contains is to return its position.  The loop
  of \<^verbatim>\<open>get_object_idx\<close> leaves with \<^verbatim>\<open>break\<close> when the id sought is greater than the one
  at \<open>i\<close>, which in an ascending table is the case at every entry before the one sought: an
  id is found only when it is the first of its bucket.  In the sample index \<open>id_c\<close> is at
  position 2, the bucket of \<^verbatim>\<open>0x42\<close> is [1, 3), and the lookup returns -1; \<open>id_b\<close>, first of
  the bucket, is found, and the absent \<open>id_d\<close> is not.
\<close>

theorem second_id_of_bucket_not_found:
  "get_object_idx s1_packidx id_c = Some (- 1) \<and>
   sorted_ids s1_packidx ! 2 = id_c \<and>
   betoh32 (fanout_table s1_packidx ! 0x41) = 1 \<and>
   betoh32 (fanout_table s1_packidx ! 0x42) = 3 \<and>
   get_object_idx s1_packidx id_b = Some 1 \<and>
   get_object_idx s1_packidx id_d = Some (- 1)"
  by code_simp

subsection \<open>Extraction of plain objects\<close>

lemma dump_plain_object_copy:
  "length (bytes outfile) = pos outfile \<Longrightarrow> pos outfile + n \<le> room \<Longrightarrow>
   dump_plain_object room infile n outfile =
     (if n = 0 \<or> pos infile + n \<le> length (bytes infile)
      then Inr \<lparr>bytes = bytes outfile @ take n (drop (pos infile) (bytes infile)), pos = 0\<rparr>
      else Inl GOT_ERR_BAD_PACKFILE)"
proof (induction n arbitrary: infile outfile rule: less_induct)
  case (less n)
  show ?case
  proof (cases "n = 0")
    case True
    then show ?thesis using less.prems
      by (subst dump_plain_object.simps) (simp add: rewind_def)
  next
    case False
    define len where "len = min n 2048"
    have len: "0 < len" "len \<le> n" using False by (simp_all add: len_def)
    show ?thesis
    proof (cases "pos infile + len \<le> length (bytes infile)")
      case False
      then have rd: "fread infile len = None" by (simp add: fread_def)
      from False len have "\<not> pos infile + n \<le> length (bytes infile)" by simp
      with rd \<open>n \<noteq> 0\<close> show ?thesis
        by (subst dump_plain_object.simps) (simp add: len_def[symmetric] Let_def)
    next
      case True
      let ?data = "take len (drop (pos infile) (bytes infile))"
      let ?in' = "infile\<lparr>pos := pos infile + len\<rparr>"
      let ?out' = "\<lparr>bytes = bytes outfile @ ?data, pos = pos outfile + len\<rparr>"
      have ld: "length ?data = len" using True by simp
      have rd: "fread infile len = Some (?data, ?in')" using True by (simp add: fread_def)
      have wr: "fwrite room outfile ?data = Some ?out'"
        using less.prems len ld by (simp add: fwrite_def)
      have IH: "dump_plain_object room ?in' (n - len) ?out' =
        (if n - len = 0 \<or> pos ?in' + (n - len) \<le> length (bytes ?in')
         then Inr \<lparr>bytes = bytes ?out' @ take (n - len) (drop (pos ?in') (bytes ?in')), pos = 0\<rparr>
         else Inl GOT_ERR_BAD_PACKFILE)"
        using less.IH[of "n - len" ?out' ?in'] less.prems len ld by simp
      have cat: "?data @ take (n - len) (drop (pos infile + len) (bytes infile)) =
                 take n (drop (pos infile) (bytes infile))"
        using take_add[of len "n - len" "drop (pos infile) (bytes infile)"] len
        by (simp add: add.commute)
      have cond: "(n - len = 0 \<or> pos infile + len + (n - len) \<le> length (bytes infile)) \<longleftrightarrow>
                  pos infile + n \<le> length (bytes infile)"
        using True len by auto
      show ?thesis
        using \<open>n \<noteq> 0\<close> rd wr IH cat cond
        by (subst dump_plain_object.simps) (simp add: len_def[symmetric] Let_def)
    qed
  qed
qed

text \<open>
  C2, as the spec has it: the stream that \<^verbatim>\<open>got_packfile_extract_object\<close> returns for a
  plain object holds the inflated payload.  The blob \<open>blob_a\<close> has the content \<^verbatim>\<open>a\<close> (the
  byte \<^verbatim>\<open>0x61\<close>), stored deflated in \<open>pack_a\<close>; the stream returned holds \<^verbatim>\<open>0x78\<close>, the first
  byte of the deflated payload.
\<close>

theorem plain_extraction_not_inflated:
  "got_packfile_extract_object (\<lambda>i. Inl GOT_ERR_NO_OBJ) (\<lambda>f n b out. Inl GOT_ERR_NOT_IMPL)
     fs_a (Some 4096) blob_a = Inr \<lparr>bytes = [0x78], pos = 0\<rparr>"
  by code_simp

text \<open>
  C2, amended: extracting a packed commit, tree or blob yields a stream, rewound to its
  start, that holds exactly the \<open>size\<close> bytes of the pack file from the object's
  \<open>pack_offset\<close> on, as they are in the file (nothing is inflated); when the pack file ends
  before that many bytes, extraction fails with \<^verbatim>\<open>GOT_ERR_BAD_PACKFILE\<close>.  This holds when
  the temporary file can be opened and can take \<open>size\<close> bytes and the pack file opens.
\<close>

theorem plain_extraction_copies_raw:
  assumes "GOT_OBJ_FLAG_PACKED \<in> flags obj"
    and "obj_type obj = GOT_OBJ_TYPE_COMMIT \<or> obj_type obj = GOT_OBJ_TYPE_TREE \<or>
         obj_type obj = GOT_OBJ_TYPE_BLOB"
    and "files fs (path_packfile obj) = Some bs"
    and "0 \<le> sint (pack_offset obj)"
    and "unat (obj_size obj) \<le> room"
  shows "got_packfile_extract_object got_object_open got_delta_apply fs (Some room) obj =
           (if unat (obj_size obj) = 0 \<or>
               nat (sint (pack_offset obj)) + unat (obj_size obj) \<le> length bs
            then Inr \<lparr>bytes = take (unat (obj_size obj)) (drop (nat (sint (pack_offset obj))) bs),
                      pos = 0\<rparr>
            else Inl GOT_ERR_BAD_PACKFILE)"
proof -
  let ?pf = "\<lparr>bytes = bs, pos = nat (sint (pack_offset obj))\<rparr>"
  have op: "fopen fs (path_packfile obj) = Some \<lparr>bytes = bs, pos = 0\<rparr>"
    using assms(3) by (simp add: fopen_def)
  have sk: "fseeko \<lparr>bytes = bs, pos = 0\<rparr> (pack_offset obj) = Some ?pf"
    using assms(4) by (simp add: fseeko_def)
  have "dump_plain_object room ?pf (unat (obj_size obj)) \<lparr>bytes = [], pos = 0\<rparr> =
          (if unat (obj_size obj) = 0 \<or>
              nat (sint (pack_offset obj)) + unat (obj_size obj) \<le> length bs
           then Inr \<lparr>bytes = take (unat (obj_size obj)) (drop (nat (sint (pack_offset obj))) bs),
                     pos = 0\<rparr>
           else Inl GOT_ERR_BAD_PACKFILE)"
    using dump_plain_object_copy[of "\<lparr>bytes = [], pos = 0\<rparr>" "unat (obj_size obj)" room ?pf] assms(5)
    by simp
  then show ?thesis
    using assms(1,2) op sk by (simp add: got_packfile_extract_object_def)
qed

theorem plain_extraction_copies_raw_witness:
  "GOT_OBJ_FLAG_PACKED \<in> flags (blob_a\<lparr>obj_size := 9\<rparr>) \<and>
   obj_type (blob_a\<lparr>obj_size := 9\<rparr>) = GOT_OBJ_TYPE_BLOB \<and>
   files fs_a (path_packfile (blob_a\<lparr>obj_size := 9\<rparr>)) = Some pack_a \<and>
   0 \<le> sint (pack_offset (blob_a\<lparr>obj_size := 9\<rparr>)) \<and>
   unat (obj_size (blob_a\<lparr>obj_size := 9\<rparr>)) \<le> 4096 \<and>
   got_packfile_extract_object (\<lambda>i. Inl GOT_ERR_NO_OBJ) (\<lambda>f n b out. Inl GOT_ERR_NOT_IMPL)
     fs_a (Some 4096) (blob_a\<lparr>obj_size := 9\<rparr>)
     = Inr \<lparr>bytes = [0x78, 0x9c, 0x4b, 0x04, 0x00, 0x00, 0x62, 0x00, 0x62], pos = 0\<rparr> \<and>
   got_packfile_extract_object (\<lambda>i. Inl GOT_ERR_NO_OBJ) (\<lambda>f n b out. Inl GOT_ERR_NOT_IMPL)
     fs_a (Some 4096) (blob_a\<lparr>obj_size := 64\<rparr>)
     = Inl GOT_ERR_BAD_PACKFILE"
  using plain_extraction_copies_raw[of "blob_a\<lparr>obj_size := 9\<rparr>" fs_a pack_a 4096
      "\<lambda>i. Inl GOT_ERR_NO_OBJ" "\<lambda>f n b out. Inl GOT_ERR_NOT_IMPL"]
    plain_extraction_copies_raw[of "blob_a\<lparr>obj_size := 64\<rparr>" fs_a pack_a 4096
      "\<lambda>i. Inl GOT_ERR_NO_OBJ" "\<lambda>f n b out. Inl GOT_ERR_NOT_IMPL"]
  by (simp add: blob_a_def open_plain_object_def fs_a_def pack_a_def path_a_def
      GOT_OBJ_TYPE_BLOB_def)

subsection \<open>Delta chains\<close>






text \<open>
  An offset delta whose negative offset is 0 is not refused either: the base offset is
  the offset of the delta itself, not below 1, and the chain ends two records later with
  \<^verbatim>\<open>GOT_ERR_NOT_IMPL\<close> at the byte behind the header, which is no object header.
\<close>

lemma zero_negative_offset_not_refused:
  "resolve_delta_chain (\<lambda>bs. []) fs_pack repo_pack \<lparr>nentries = 0, entries = []\<rparr>
     \<lparr>bytes = pack_zero, pos = 13\<rparr> path_zero
     GOT_OBJ_TYPE_OFFSET_DELTA 12 4
   = Some (Returned (Some GOT_ERR_NOT_IMPL)
       \<lparr>nentries = 3,
        entries =
          [got_delta_open path_zero GOT_OBJ_TYPE_OFFSET_DELTA 12 4,
           got_delta_open path_zero GOT_OBJ_TYPE_OFFSET_DELTA 13 4,
           got_delta_open path_zero 0 14 0]\<rparr>)"
  by code_simp











text \<open>
  Conversely, a walk that returns with every read defined ended within some number of steps.
\<close>

lemma returned_ends:
  assumes "resolve_delta_chain sha1 fs repo chain packfile path t delta_off sz = Some r"
  shows "r \<noteq> Undefined \<longrightarrow> (\<exists>n. ends_within sha1 fs repo n packfile t delta_off)"
proof (rule resolve_delta_chain.raw_induct
    [where P = "\<lambda>sha1 fs repo chain packfile path t delta_off sz r.
       r \<noteq> Undefined \<longrightarrow> (\<exists>n. ends_within sha1 fs repo n packfile t delta_off)",
     OF _ assms], goal_cases)
  case (1 rdc sha1 fs repo chain packfile path t delta_off sz r)
  show ?case
  proof
    assume def: "r \<noteq> Undefined"
    consider (plain) "plain_type t"
      | (off) "\<not> plain_type t" "t = GOT_OBJ_TYPE_OFFSET_DELTA"
      | (ref) "\<not> plain_type t" "t \<noteq> GOT_OBJ_TYPE_OFFSET_DELTA" "t = GOT_OBJ_TYPE_REF_DELTA"
      | (other) "\<not> plain_type t" "t \<noteq> GOT_OBJ_TYPE_OFFSET_DELTA" "t \<noteq> GOT_OBJ_TYPE_REF_DELTA"
      by blast
    then show "\<exists>n. ends_within sha1 fs repo n packfile t delta_off"
    proof cases
      case plain
      then have "ends_within sha1 fs repo 0 packfile t delta_off"
        by (subst ends_within.simps) simp
      then show ?thesis ..
    next
      case off
      show ?thesis
      proof (cases "resolve_offset_delta packfile delta_off")
        case (Inl err)
        with off have "ends_within sha1 fs repo 0 packfile t delta_off"
          by (subst ends_within.simps) simp
        then show ?thesis ..
      next
        case (Inr x)
        then obtain pf bt bo bs where x: "resolve_offset_delta packfile delta_off = Inr (pf, bt, bo, bs)"
          by (cases x) auto
        with 1(2) off obtain chain1 where "rdc sha1 fs repo chain1 pf path bt bo bs = Some r"
          by (simp add: Let_def plain_type_def)
        from 1(1)[OF this] def obtain n where "ends_within sha1 fs repo n pf bt bo" by blast
        with off x have "ends_within sha1 fs repo (Suc n) packfile t delta_off"
          by (subst ends_within.simps) simp
        then show ?thesis ..
      qed
    next
      case ref
      show ?thesis
      proof (cases "resolve_ref_delta sha1 fs repo packfile")
        case None
        with 1(2) ref def show ?thesis by (simp add: Let_def plain_type_def)
      next
        case (Some y)
        show ?thesis
        proof (cases y)
          case (Inl err)
          with ref Some have "ends_within sha1 fs repo 0 packfile t delta_off"
            by (subst ends_within.simps) simp
          then show ?thesis ..
        next
          case (Inr x)
          then obtain pf p bt bo bs where
            x: "resolve_ref_delta sha1 fs repo packfile = Some (Inr (pf, p, bt, bo, bs))"
            using Some by (cases x) auto
          with 1(2) ref obtain chain1 where "rdc sha1 fs repo chain1 pf p bt bo bs = Some r"
            by (simp add: Let_def plain_type_def)
          from 1(1)[OF this] def obtain n where "ends_within sha1 fs repo n pf bt bo" by blast
          with ref x have "ends_within sha1 fs repo (Suc n) packfile t delta_off"
            by (subst ends_within.simps) simp
          then show ?thesis ..
        qed
      qed
    next
      case other
      then have "ends_within sha1 fs repo 0 packfile t delta_off"
        by (subst ends_within.simps) simp
      then show ?thesis ..
    qed
  qed
qed



end
